theory Spec2Isabelle
  imports Complex_Main
begin

section \<open>Scalar helpers of \<^verbatim>\<open>tit/core/math.hpp\<close>\<close>

text \<open>
  The floating-point type \<^verbatim>\<open>Num\<close>/\<^verbatim>\<open>Real\<close> of the sources is modelled by the
  real numbers. Except in \<^verbatim>\<open>bisection\<close>, the arithmetic is exact: the statements are
  about the formulas the code writes down, not about rounding. \<^verbatim>\<open>bisection\<close> takes the
  rounding of its number type as a parameter, because the bracket it returns depends on it.
  \<^verbatim>\<open>size_t\<close> counters are natural numbers.
\<close>

definition sign :: "real \<Rightarrow> real" where
  "sign a = of_int ((if 0 < a then 1 else 0) - (if a < 0 then 1 else 0))"

definition pow2 :: "real \<Rightarrow> real" where
  "pow2 a = a * a"

definition pow3 :: "real \<Rightarrow> real" where
  "pow3 a = a * a * a"

definition pow4 :: "real \<Rightarrow> real" where
  "pow4 a = (let a_sqr = a * a in a_sqr * a_sqr)"

definition pow5 :: "real \<Rightarrow> real" where
  "pow5 a = (let a_sqr = a * a in a_sqr * a_sqr * a)"

text \<open>
  \<^verbatim>\<open>small_number_v<Real>\<close> is \<^verbatim>\<open>epsilon()\<close> under clang and
  \<^verbatim>\<open>cbrt(epsilon())\<close> otherwise. The model takes it as the parameter \<open>sn\<close> of every
  function that reads it, so that the results hold for both builds. It is also the default
  value of the \<^verbatim>\<open>eps\<close> argument of both solvers.
\<close>

definition is_small :: "real \<Rightarrow> real \<Rightarrow> bool" where
  "is_small sn a \<longleftrightarrow> \<bar>a\<bar> \<le> sn"

text \<open>
  The rounding of \<^verbatim>\<open>double\<close> (\<^verbatim>\<open>real_t\<close> is \<^verbatim>\<open>float64_t\<close>): an exact result is
  replaced by the nearest multiple of the unit in the last place of its binade, 52 binary
  places below the leading one (and never below \<open>2\<^sup>-\<^sup>1\<^sup>0\<^sup>7\<^sup>4\<close>), a tie going to the even
  multiple. Overflow to infinity is not modelled.
\<close>

definition round_half_even :: "real \<Rightarrow> int" where
  "round_half_even x =
     (let n = \<lfloor>x\<rfloor>; d = x - of_int n
      in if d < 1 / 2 then n
         else if 1 / 2 < d then n + 1
         else if even n then n else n + 1)"

definition two_to :: "int \<Rightarrow> real" where
  "two_to e = (if 0 \<le> e then 2 ^ nat e else 1 / 2 ^ nat (- e))"

definition round_double :: "real \<Rightarrow> real" where
  "round_double x =
     (if x = 0 then 0
      else
        let e = max \<lfloor>log 2 \<bar>x\<bar>\<rfloor> (- 1022);
            ulp = two_to (e - 52)
        in of_int (round_half_even (x / ulp)) * ulp)"

section \<open>Root-finding primitives\<close>

datatype NewtonRaphsonStatus = success | fail_max_iter | fail_zero_deriv

text \<open>
  \<^verbatim>\<open>newton_raphson(Num& x, Func&& f, Num eps, size_t max_iter)\<close>. The callable takes
  no argument and depends on \<^verbatim>\<open>x\<close> implicitly, through the state it captures by
  reference; it may also write that state (the Grad-H estimator's callable does). The model
  therefore passes a state \<open>'s\<close>: \<open>f\<close> maps a state to the pair
  (residual, derivative) and the state it leaves, and \<open>upd_x g\<close> applies \<open>g\<close> to the
  place \<^verbatim>\<open>x\<close> refers to. The last argument counts the iterations that remain.
\<close>

fun newton_raphson ::
  "real \<Rightarrow> ((real \<Rightarrow> real) \<Rightarrow> 's \<Rightarrow> 's) \<Rightarrow> ('s \<Rightarrow> (real \<times> real) \<times> 's) \<Rightarrow> real \<Rightarrow> nat \<Rightarrow> 's
   \<Rightarrow> NewtonRaphsonStatus \<times> 's" where
  "newton_raphson sn upd_x f eps 0 s = (NewtonRaphsonStatus.fail_max_iter, s)"
| "newton_raphson sn upd_x f eps (Suc n) s =
     (case f s of ((y, df_dx), s1) \<Rightarrow>
        if \<bar>y\<bar> \<le> eps then (NewtonRaphsonStatus.success, s1)
        else if is_small sn df_dx then (NewtonRaphsonStatus.fail_zero_deriv, s1)
        else newton_raphson sn upd_x f eps n (upd_x (\<lambda>x. x - y / df_dx) s1))"

text \<open>One pass through the loop body that reaches the update \<^verbatim>\<open>x -= y / df_dx\<close>.\<close>

definition newton_step :: "((real \<Rightarrow> real) \<Rightarrow> 's \<Rightarrow> 's) \<Rightarrow> ('s \<Rightarrow> (real \<times> real) \<times> 's) \<Rightarrow> 's \<Rightarrow> 's" where
  "newton_step upd_x f s =
     (case f s of ((y, df_dx), s1) \<Rightarrow> upd_x (\<lambda>x. x - y / df_dx) s1)"

text \<open>What a call of the callable returns in a state: the residual and the derivative.\<close>

definition residual :: "('s \<Rightarrow> (real \<times> real) \<times> 's) \<Rightarrow> 's \<Rightarrow> real" where
  "residual f s = fst (fst (f s))"

definition derivative :: "('s \<Rightarrow> (real \<times> real) \<times> 's) \<Rightarrow> 's \<Rightarrow> real" where
  "derivative f s = snd (fst (f s))"

text \<open>The solver on a plain number: the state is \<^verbatim>\<open>x\<close> itself.\<close>

definition scalar_upd :: "(real \<Rightarrow> real) \<Rightarrow> real \<Rightarrow> real" where
  "scalar_upd g x = g x"

definition scalar_fun :: "(real \<Rightarrow> real \<times> real) \<Rightarrow> real \<Rightarrow> (real \<times> real) \<times> real" where
  "scalar_fun g x = (g x, x)"

datatype BisectionStatus = success | fail_max_iter | failure_sign

text \<open>
  \<^verbatim>\<open>bisection\<close> is a template over any number type \<^verbatim>\<open>Num\<close>. Its comparisons,
  \<^verbatim>\<open>abs\<close> and \<^verbatim>\<open>sign\<close> are exact in every such type; each subtraction, product and
  quotient gives the exact result rounded to the type. The model takes that rounding as the
  parameter \<open>rnd\<close>: the identity for a type with exact arithmetic, \<open>round_double\<close> for
  \<^verbatim>\<open>double\<close>.

  The loop of \<^verbatim>\<open>bisection\<close>, on the state (min_x, max_x, min_f, max_f); the fourth
  argument counts the iterations that remain.
\<close>

fun bisection_loop ::
  "(real \<Rightarrow> real) \<Rightarrow> (real \<Rightarrow> real) \<Rightarrow> real \<Rightarrow> nat \<Rightarrow> real \<times> real \<times> real \<times> real
   \<Rightarrow> BisectionStatus \<times> real \<times> real" where
  "bisection_loop rnd f eps 0 (min_x, max_x, min_f, max_f) =
     (BisectionStatus.fail_max_iter, min_x, max_x)"
| "bisection_loop rnd f eps (Suc n) (min_x, max_x, min_f, max_f) =
     (if sign max_f = sign min_f then (BisectionStatus.failure_sign, min_x, max_x)
      else
        let x = rnd (min_x - rnd (rnd (min_f * rnd (max_x - min_x)) / rnd (max_f - min_f)));
            y = f x
        in if \<bar>y\<bar> \<le> eps then (BisectionStatus.success, x, x)
           else
             let sign_y = sign y
             in if sign_y \<noteq> sign min_f then bisection_loop rnd f eps n (min_x, x, min_f, y)
                else if sign_y \<noteq> sign max_f then bisection_loop rnd f eps n (x, max_x, y, max_f)
                else bisection_loop rnd f eps n (min_x, max_x, min_f, max_f))"

text \<open>
  \<^verbatim>\<open>bisection(Num& min_x, Num& max_x, Func&& f, Num eps, size_t max_iter)\<close> returns the
  status and the bracket it leaves in \<^verbatim>\<open>min_x\<close> and \<^verbatim>\<open>max_x\<close>. The assertion
  \<^verbatim>\<open>TIT_ASSERT(min_x <= max_x, "Inverted search range!")\<close> is a precondition: the
  theorems that need it assume it.
\<close>

definition bisection ::
  "(real \<Rightarrow> real) \<Rightarrow> real \<Rightarrow> real \<Rightarrow> (real \<Rightarrow> real) \<Rightarrow> real \<Rightarrow> nat
   \<Rightarrow> BisectionStatus \<times> real \<times> real" where
  "bisection rnd min_x max_x f eps max_iter =
     (let min_f = f min_x
      in if \<bar>min_f\<bar> \<le> eps then (BisectionStatus.success, min_x, min_x)
         else
           let max_f = f max_x
           in if \<bar>max_f\<bar> \<le> eps then (BisectionStatus.success, max_x, max_x)
              else bisection_loop rnd f eps max_iter (min_x, max_x, min_f, max_f))"

section \<open>Vectors\<close>

text \<open>
  Modelled from the spec: the header \<^verbatim>\<open>vec.hpp\<close> (\<^verbatim>\<open>Vec<Real, Dim>\<close>,
  \<^verbatim>\<open>Point<Real, Dim>\<close>, their arithmetic, \<^verbatim>\<open>dot\<close>, \<^verbatim>\<open>norm\<close>, \<^verbatim>\<open>dim\<close>) is not
  among the sources. The specification speaks of relative-position vectors, of \<open>|r|/h\<close>
  and of the dot of two vectors: a vector is the list of its \<open>Dim\<close> real components, with
  the componentwise operations, the Euclidean inner product and the Euclidean norm.
  \<^verbatim>\<open>avg(a, b)\<close> of \<^verbatim>\<open>math.hpp\<close> on two vectors is \<^verbatim>\<open>(a + b) / 2\<close>. The vector
  product \<^verbatim>\<open>cross\<close> is left open: it is a parameter of the estimators.
\<close>

type_synonym vec = "real list"

definition vec_add :: "vec \<Rightarrow> vec \<Rightarrow> vec" where
  "vec_add a b = map2 (+) a b"

definition vec_sub :: "vec \<Rightarrow> vec \<Rightarrow> vec" where
  "vec_sub a b = map2 (-) a b"

definition vec_neg :: "vec \<Rightarrow> vec" where
  "vec_neg a = map uminus a"

definition vec_scale :: "real \<Rightarrow> vec \<Rightarrow> vec" where
  "vec_scale c a = map ((*) c) a"

definition vec_div :: "vec \<Rightarrow> real \<Rightarrow> vec" where
  "vec_div a c = map (\<lambda>x. x / c) a"

definition vec_zero :: "nat \<Rightarrow> vec" where
  "vec_zero n = replicate n 0"

definition dot :: "vec \<Rightarrow> vec \<Rightarrow> real" where
  "dot a b = sum_list (map2 (*) a b)"

definition norm_vec :: "vec \<Rightarrow> real" where
  "norm_vec a = sqrt (dot a a)"

definition avg :: "vec \<Rightarrow> vec \<Rightarrow> vec" where
  "avg a b = vec_div (vec_add a b) 2"

section \<open>Smoothing kernels\<close>

text \<open>
  A concrete kernel supplies \<^verbatim>\<open>weight<Real, Dim>()\<close>, \<^verbatim>\<open>unit_radius<Real>()\<close>,
  \<^verbatim>\<open>unit_value(q)\<close> and \<^verbatim>\<open>unit_deriv(q)\<close>; the base class \<^verbatim>\<open>SmoothingKernel\<close>
  derives the rest from them.
\<close>

record kernel =
  weight :: "nat \<Rightarrow> real"
  unit_radius :: real
  unit_value :: "real \<Rightarrow> real"
  unit_deriv :: "real \<Rightarrow> real"

text \<open>
  Modelled from the spec: \<^verbatim>\<open>safe_divide\<close> is called by \<^verbatim>\<open>SmoothingKernel::grad\<close> and
  is not among the sources. The specification gives the convention
  ``\<^verbatim>\<open>unit_deriv(q)/q\<close> goes to 0 as \<^verbatim>\<open>q\<close> goes to 0'': the quotient is 0 when the
  divisor is small and the plain quotient otherwise.
\<close>

definition safe_divide :: "real \<Rightarrow> real \<Rightarrow> real \<Rightarrow> real" where
  "safe_divide sn a b = (if is_small sn b then 0 else a / b)"

text \<open>
  The members of \<^verbatim>\<open>SmoothingKernel\<close>. \<open>Dim\<close> is the length of the point. Each one
  starts with \<^verbatim>\<open>TIT_ASSERT(h > 0, "Kernel width must be positive!")\<close>, a precondition.
  \<^verbatim>\<open>dim_t\<close> is taken to be a signed integer, so that \<^verbatim>\<open>-Dim\<close> is the negative number.
\<close>

definition radius :: "kernel \<Rightarrow> real \<Rightarrow> real" where
  "radius K w = unit_radius K * w"

definition kernel_value :: "kernel \<Rightarrow> vec \<Rightarrow> real \<Rightarrow> real" where
  "kernel_value K x w =
     (let Dim = length x;
          h_inverse = inverse w;
          q = h_inverse * norm_vec x
      in h_inverse ^ Dim * weight K Dim * unit_value K q)"

definition grad :: "kernel \<Rightarrow> real \<Rightarrow> vec \<Rightarrow> real \<Rightarrow> vec" where
  "grad K sn x w =
     (let Dim = length x;
          h_inverse = inverse w;
          q = h_inverse * norm_vec x
      in vec_scale (h_inverse ^ (Dim + 2) * weight K Dim * safe_divide sn (unit_deriv K q) q) x)"

definition radius_deriv :: "kernel \<Rightarrow> vec \<Rightarrow> real \<Rightarrow> real" where
  "radius_deriv K x w =
     (let Dim = length x;
          h_inverse = inverse w;
          q = h_inverse * norm_vec x
      in h_inverse ^ (Dim + 1) * weight K Dim *
           (- real Dim * unit_value K q - q * unit_deriv K q))"

subsection \<open>The Gaussian kernel\<close>

definition GaussianSmoothingKernel :: kernel where
  "GaussianSmoothingKernel =
     \<lparr> weight = (\<lambda>Dim. (1 / sqrt pi) ^ Dim),
       unit_radius = sqrt (- ln (1 / 2 ^ 1022)),
       unit_value = (\<lambda>q. exp (- pow2 q)),
       unit_deriv = (\<lambda>q. - 2 * q * exp (- pow2 q)) \<rparr>"

subsection \<open>The cubic B-spline (M4) kernel\<close>

text \<open>
  \<^verbatim>\<open>static_assert(1 <= Dim && Dim <= 3)\<close> rejects every other dimension at compile time;
  the weight has no value there.
\<close>

definition Cubic_weight :: "nat \<Rightarrow> real" where
  "Cubic_weight Dim =
     (if Dim = 1 then 2 / 3
      else if Dim = 2 then 10 / 7 * (1 / pi)
      else if Dim = 3 then 1 / pi
      else undefined)"

definition Cubic_unit_value :: "real \<Rightarrow> real" where
  "Cubic_unit_value q =
     (if 0 \<le> q \<and> q < 1 then 1 / 4 * pow3 (2 - q) - pow3 (1 - q)
      else if 1 \<le> q \<and> q < 2 then 1 / 4 * pow3 (2 - q)
      else 0)"

definition Cubic_unit_deriv :: "real \<Rightarrow> real" where
  "Cubic_unit_deriv q =
     (if 0 \<le> q \<and> q < 1 then - (3 / 4) * pow2 (2 - q) + 3 * pow2 (1 - q)
      else if 1 \<le> q \<and> q < 2 then - (3 / 4) * pow2 (2 - q)
      else 0)"

definition CubicSmoothingKernel :: kernel where
  "CubicSmoothingKernel =
     \<lparr> weight = Cubic_weight, unit_radius = 2,
       unit_value = Cubic_unit_value, unit_deriv = Cubic_unit_deriv \<rparr>"

subsection \<open>The cubic kernel with the Thomas-Couchman (1992) modified derivative\<close>

definition ThomasCouchman_unit_deriv :: "real \<Rightarrow> real" where
  "ThomasCouchman_unit_deriv q =
     (if 0 \<le> q \<and> q < 2 / 3 then - 1
      else if 2 / 3 \<le> q \<and> q < 1 then (9 / 4 * q - 3) * q
      else if 1 \<le> q \<and> q < 2 then 3 / 4 * pow2 (2 - q)
      else 0)"

definition ThomasCouchmanSmoothingKernel :: kernel where
  "ThomasCouchmanSmoothingKernel =
     \<lparr> weight = Cubic_weight, unit_radius = 2,
       unit_value = Cubic_unit_value, unit_deriv = ThomasCouchman_unit_deriv \<rparr>"

subsection \<open>The quartic B-spline (M5) kernel\<close>

definition Quartic_weight :: "nat \<Rightarrow> real" where
  "Quartic_weight Dim =
     (if Dim = 1 then 1 / 24
      else if Dim = 2 then 96 / 1199 * (1 / pi)
      else if Dim = 3 then 1 / 2 * (1 / pi)
      else undefined)"

definition Quartic_unit_value :: "real \<Rightarrow> real" where
  "Quartic_unit_value q =
     (if 0 \<le> q \<and> q < 1 / 2 then
        1 * pow4 (5 / 2 - q) - 5 * pow4 (3 / 2 - q) + 10 * pow4 (1 / 2 - q)
      else if 1 / 2 \<le> q \<and> q < 3 / 2 then 1 * pow4 (5 / 2 - q) - 5 * pow4 (3 / 2 - q)
      else if 3 / 2 \<le> q \<and> q < 5 / 2 then 1 * pow4 (5 / 2 - q)
      else 0)"

definition Quartic_unit_deriv :: "real \<Rightarrow> real" where
  "Quartic_unit_deriv q =
     (if 0 \<le> q \<and> q < 1 / 2 then
        - 4 * pow3 (5 / 2 - q) + 20 * pow3 (3 / 2 - q) - 40 * pow3 (1 / 2 - q)
      else if 1 / 2 \<le> q \<and> q < 3 / 2 then - 4 * pow3 (5 / 2 - q) + 20 * pow3 (3 / 2 - q)
      else if 3 / 2 \<le> q \<and> q < 5 / 2 then - 4 * pow3 (5 / 2 - q)
      else 0)"

definition QuarticSmoothingKernel :: kernel where
  "QuarticSmoothingKernel =
     \<lparr> weight = Quartic_weight, unit_radius = 5 / 2,
       unit_value = Quartic_unit_value, unit_deriv = Quartic_unit_deriv \<rparr>"

subsection \<open>The quintic B-spline (M6) kernel\<close>

definition Quintic_weight :: "nat \<Rightarrow> real" where
  "Quintic_weight Dim =
     (if Dim = 1 then 1 / 120
      else if Dim = 2 then 7 / 478 * (1 / pi)
      else if Dim = 3 then 1 / 120 * (1 / pi)
      else undefined)"

definition Quintic_unit_value :: "real \<Rightarrow> real" where
  "Quintic_unit_value q =
     (if 0 \<le> q \<and> q < 1 then
        1 * pow5 (3 - q) - 6 * pow5 (2 - q) + 15 * pow5 (1 - q)
      else if 1 \<le> q \<and> q < 2 then 1 * pow5 (3 - q) - 6 * pow5 (2 - q)
      else if 2 \<le> q \<and> q < 3 then pow5 (3 - q)
      else 0)"

definition Quintic_unit_deriv :: "real \<Rightarrow> real" where
  "Quintic_unit_deriv q =
     (if 0 \<le> q \<and> q < 1 then
        - 5 * pow4 (3 - q) + 30 * pow4 (2 - q) - 75 * pow4 (1 - q)
      else if 1 \<le> q \<and> q < 2 then - 5 * pow4 (3 - q) + 30 * pow4 (2 - q)
      else if 2 \<le> q \<and> q < 3 then - 5 * pow4 (3 - q)
      else 0)"

definition QuinticSmoothingKernel :: kernel where
  "QuinticSmoothingKernel =
     \<lparr> weight = Quintic_weight, unit_radius = 3,
       unit_value = Quintic_unit_value, unit_deriv = Quintic_unit_deriv \<rparr>"

section \<open>Parallel partitioners\<close>

text \<open>
  A \<^verbatim>\<open>tbb::blocked_range<Iter>\<close> holds the two iterators and the grain size. A range is
  modelled by the list of its elements and an iterator by its position in the list, so
  \<^verbatim>\<open>std::begin(range)\<close> is 0 and \<^verbatim>\<open>std::end(range)\<close> is the length. The two-argument
  constructor of \<^verbatim>\<open>blocked_range\<close> takes the grain size 1.
\<close>

record blocked_range =
  br_begin :: nat
  br_end :: nat
  br_grainsize :: nat

text \<open>
  Modelled from the spec: \<^verbatim>\<open>divide_up\<close> (header \<^verbatim>\<open>uint_utils.hpp\<close>) is not among the
  sources. The specification describes its use as ``dividing the range size by the current
  worker-thread count, rounding up'': the usual unsigned computation of a quotient rounded up.
\<close>

definition divide_up :: "nat \<Rightarrow> nat \<Rightarrow> nat" where
  "divide_up a b = (a + b - 1) div b"

definition AutoPartitioner_blockify :: "'a list \<Rightarrow> blocked_range" where
  "AutoPartitioner_blockify rng =
     \<lparr> br_begin = 0, br_end = length rng, br_grainsize = 1 \<rparr>"

text \<open>\<^verbatim>\<open>num_threads()\<close> (header \<^verbatim>\<open>par/control.hpp\<close>) is the first argument.\<close>

definition StaticPartitioner_blockify :: "nat \<Rightarrow> 'a list \<Rightarrow> blocked_range" where
  "StaticPartitioner_blockify num_threads rng =
     (let grain_size_hint = divide_up (length rng) num_threads
      in \<lparr> br_begin = 0, br_end = length rng, br_grainsize = grain_size_hint \<rparr>)"

section \<open>Particles and their collaborators\<close>

text \<open>
  The sources store one array per field and address a particle by its index: \<^verbatim>\<open>h[a]\<close>,
  \<^verbatim>\<open>rho[a]\<close>. The model keeps one record per particle and the cloud as the list of them, so
  \<^verbatim>\<open>rho[a]\<close> is \<open>rho (ps ! a)\<close>. A field the cloud does not declare is present in the
  record and never read or written: the compile-time test \<^verbatim>\<open>has<A>(...)\<close> is a flag
  of the environment below.
\<close>

record particle =
  fixed :: bool
  h :: real
  Omega :: real
  m :: real
  rho :: real
  p :: real
  cs :: real
  r :: vec
  v :: vec
  dv_dt :: vec
  div_v :: real
  curl_v :: vec
  eps :: real
  deps_dt :: real
  alpha :: real
  dalpha_dt :: real

text \<open>The assignment \<^verbatim>\<open>field[a] = ...\<close>, as an update of particle \<open>a\<close> of the cloud.\<close>

definition upd :: "nat \<Rightarrow> (particle \<Rightarrow> particle) \<Rightarrow> particle list \<Rightarrow> particle list" where
  "upd a g ps = ps[a := g (ps ! a)]"

text \<open>
  Modelled from the spec: the header \<^verbatim>\<open>TitParticle.hpp\<close>, which gives \<^verbatim>\<open>r[a, b]\<close> and
  \<^verbatim>\<open>v[a, b]\<close> their meaning, is not among the sources. The specification calls them the
  relative position and the relative velocity of the pair: the difference of the field
  between particle \<open>a\<close> and particle \<open>b\<close>.
\<close>

definition r_ab :: "particle list \<Rightarrow> nat \<Rightarrow> nat \<Rightarrow> vec" where
  "r_ab ps a b = vec_sub (r (ps ! a)) (r (ps ! b))"

definition v_ab :: "particle list \<Rightarrow> nat \<Rightarrow> nat \<Rightarrow> vec" where
  "v_ab ps a b = vec_sub (v (ps ! a)) (v (ps ! b))"

text \<open>
  What the estimators take from outside and the sources do not contain: the constant
  \<^verbatim>\<open>small_number_v\<close> of the build, the vector product \<^verbatim>\<open>cross\<close>, the neighbour
  query \<^verbatim>\<open>particles.nearby(a, radius, ...)\<close> of the cloud (the indices it visits, in
  order, for the cloud as it is at the call) and the fields the cloud declares.
\<close>

record env =
  small_number_v :: real
  cross :: "vec \<Rightarrow> vec \<Rightarrow> vec"
  nearby :: "particle list \<Rightarrow> nat \<Rightarrow> real \<Rightarrow> nat list"
  has_div_v :: bool
  has_curl_v :: bool
  has_eps :: bool
  has_deps_dt :: bool
  has_alpha :: bool
  has_dalpha_dt :: bool

text \<open>
  The equation of state and the artificial viscosity are template parameters with the
  members below, each a function of the cloud as it is at the call.
\<close>

record EquationOfState =
  pressure :: "particle list \<Rightarrow> nat \<Rightarrow> real"
  sound_speed :: "particle list \<Rightarrow> nat \<Rightarrow> real"

record ArtificialViscosity =
  kinematic :: "particle list \<Rightarrow> nat \<Rightarrow> nat \<Rightarrow> real"
  switch_deriv :: "particle list \<Rightarrow> nat \<Rightarrow> real"

text \<open>
  The members \<^verbatim>\<open>_eos\<close>, \<^verbatim>\<open>_kernel\<close>, \<^verbatim>\<open>_viscosity\<close> of both estimators, then
  \<^verbatim>\<open>_kernel_width\<close> of the fixed-width one (the sources dereference the optional
  unchecked; the model holds the width) and \<^verbatim>\<open>_coupling\<close> of the Grad-H one.
\<close>

record SmoothEstimator =
  eos :: EquationOfState
  smooth_kernel :: kernel
  viscosity :: ArtificialViscosity

record ClassicSmoothEstimator = SmoothEstimator +
  kernel_width :: real

record GradHSmoothEstimator = SmoothEstimator +
  coupling :: real

text \<open>
  Modelled from the spec: \<^verbatim>\<open>particles.for_each(body)\<close> belongs to the particle cloud,
  which is not among the sources. The specification describes it as ``invoke this
  per-particle callback for every particle index'', each index being written by one call
  only. The model runs the calls in index order on one cloud.
\<close>

definition for_each :: "(nat \<Rightarrow> particle list \<Rightarrow> particle list) \<Rightarrow> particle list \<Rightarrow> particle list" where
  "for_each body ps = fold body [0..<length ps] ps"

section \<open>The estimator with a fixed kernel width\<close>

text \<open>First loop of \<^verbatim>\<open>ClassicSmoothEstimator::estimate_density\<close>.\<close>

definition Classic_density_body ::
  "ClassicSmoothEstimator \<Rightarrow> env \<Rightarrow> nat \<Rightarrow> particle list \<Rightarrow> particle list" where
  "Classic_density_body E X a ps =
     (if fixed (ps ! a) then ps
      else
        let h_ab = kernel_width E;
            search_radius = radius (smooth_kernel E) h_ab;
            ps = upd a (\<lambda>q. q\<lparr>h := h_ab\<rparr>) ps;
            ps = upd a (\<lambda>q. q\<lparr>rho := 0\<rparr>) ps;
            ps = fold (\<lambda>b ps. upd a (\<lambda>q. q\<lparr>rho := rho q +
                         m (ps ! b) * kernel_value (smooth_kernel E) (r_ab ps a b) h_ab\<rparr>) ps)
                   (nearby X ps a search_radius) ps;
            ps = upd a (\<lambda>q. q\<lparr>p := pressure (eos E) ps a\<rparr>) ps;
            ps = upd a (\<lambda>q. q\<lparr>cs := sound_speed (eos E) ps a\<rparr>) ps
        in ps)"

text \<open>Second loop of \<^verbatim>\<open>ClassicSmoothEstimator::estimate_density\<close>: the neighbour callback.\<close>

definition Classic_divcurl_pair ::
  "ClassicSmoothEstimator \<Rightarrow> env \<Rightarrow> nat \<Rightarrow> nat \<Rightarrow> particle list \<Rightarrow> particle list" where
  "Classic_divcurl_pair E X a b ps =
     (let h_ab = kernel_width E;
          grad_ab = grad (smooth_kernel E) (small_number_v X) (r_ab ps a b) h_ab;
          ps = (if has_div_v X then
                  upd a (\<lambda>q. q\<lparr>div_v := div_v q + m (ps ! b) *
                    dot (vec_add (vec_div (v (ps ! a)) (pow2 (rho (ps ! a))))
                                 (vec_div (v (ps ! b)) (pow2 (rho (ps ! b))))) grad_ab\<rparr>) ps
                else ps);
          ps = (if has_curl_v X then
                  upd a (\<lambda>q. q\<lparr>curl_v := vec_sub (curl_v q) (vec_scale (m (ps ! b))
                    (cross X (vec_add (vec_div (v (ps ! a)) (pow2 (rho (ps ! a))))
                                      (vec_div (v (ps ! b)) (pow2 (rho (ps ! b))))) grad_ab))\<rparr>) ps
                else ps)
      in ps)"

text \<open>
  Second loop of \<^verbatim>\<open>ClassicSmoothEstimator::estimate_density\<close>: the body. It does not
  test \<^verbatim>\<open>fixed[a]\<close>.
\<close>

definition Classic_divcurl_body ::
  "ClassicSmoothEstimator \<Rightarrow> env \<Rightarrow> nat \<Rightarrow> particle list \<Rightarrow> particle list" where
  "Classic_divcurl_body E X a ps =
     (let h_ab = kernel_width E;
          search_radius = radius (smooth_kernel E) h_ab;
          ps = (if has_div_v X then upd a (\<lambda>q. q\<lparr>div_v := 0\<rparr>) ps else ps);
          ps = (if has_curl_v X then
                  upd a (\<lambda>q. q\<lparr>curl_v := vec_zero (length (curl_v q))\<rparr>) ps
                else ps);
          ps = fold (Classic_divcurl_pair E X a) (nearby X ps a search_radius) ps;
          ps = (if has_div_v X then upd a (\<lambda>q. q\<lparr>div_v := div_v q * rho q\<rparr>) ps else ps);
          ps = (if has_curl_v X then
                  upd a (\<lambda>q. q\<lparr>curl_v := vec_scale (rho q) (curl_v q)\<rparr>) ps
                else ps)
      in ps)"

definition Classic_estimate_density ::
  "ClassicSmoothEstimator \<Rightarrow> env \<Rightarrow> particle list \<Rightarrow> particle list" where
  "Classic_estimate_density E X ps =
     (let ps = for_each (Classic_density_body E X) ps;
          ps = for_each (Classic_divcurl_body E X) ps
      in ps)"

text \<open>\<^verbatim>\<open>ClassicSmoothEstimator::estimate_forces\<close>: the neighbour callback.\<close>

definition Classic_force_pair ::
  "ClassicSmoothEstimator \<Rightarrow> env \<Rightarrow> nat \<Rightarrow> nat \<Rightarrow> particle list \<Rightarrow> particle list" where
  "Classic_force_pair E X a b ps =
     (let h_ab = kernel_width E;
          Pi_ab = kinematic (viscosity E) ps a b;
          grad_ab = grad (smooth_kernel E) (small_number_v X) (r_ab ps a b) h_ab;
          ps = upd a (\<lambda>q. q\<lparr>dv_dt := vec_sub (dv_dt q)
                 (vec_scale (m (ps ! b) * (p (ps ! a) / pow2 (rho (ps ! a)) +
                                           p (ps ! b) / pow2 (rho (ps ! b)) + Pi_ab)) grad_ab)\<rparr>) ps;
          ps = (if has_eps X \<and> has_deps_dt X then
                  upd a (\<lambda>q. q\<lparr>deps_dt := deps_dt q +
                    m (ps ! b) * (p (ps ! a) / pow2 (rho (ps ! a)) + Pi_ab) *
                      dot grad_ab (v_ab ps a b)\<rparr>) ps
                else ps)
      in ps)"

text \<open>
  The part of the body of \<^verbatim>\<open>ClassicSmoothEstimator::estimate_forces\<close> up to the end of
  the neighbour loop: the fields are cleared and the pairwise terms summed.
\<close>

definition Classic_force_sum ::
  "ClassicSmoothEstimator \<Rightarrow> env \<Rightarrow> nat \<Rightarrow> particle list \<Rightarrow> particle list" where
  "Classic_force_sum E X a ps =
     (let h_ab = kernel_width E;
          search_radius = radius (smooth_kernel E) h_ab;
          ps = upd a (\<lambda>q. q\<lparr>dv_dt := vec_zero (length (dv_dt q))\<rparr>) ps;
          ps = (if has_eps X \<and> has_deps_dt X then upd a (\<lambda>q. q\<lparr>deps_dt := 0\<rparr>) ps else ps);
          ps = fold (Classic_force_pair E X a) (nearby X ps a search_radius) ps
      in ps)"

definition Classic_forces_body ::
  "ClassicSmoothEstimator \<Rightarrow> env \<Rightarrow> nat \<Rightarrow> particle list \<Rightarrow> particle list" where
  "Classic_forces_body E X a ps =
     (if fixed (ps ! a) then ps
      else
        let ps = Classic_force_sum E X a ps;
            ps = (if has_alpha X \<and> has_dalpha_dt X then
                    upd a (\<lambda>q. q\<lparr>dalpha_dt := switch_deriv (viscosity E) ps a\<rparr>) ps
                  else ps)
        in ps)"

definition Classic_estimate_forces ::
  "ClassicSmoothEstimator \<Rightarrow> env \<Rightarrow> particle list \<Rightarrow> particle list" where
  "Classic_estimate_forces E X ps = for_each (Classic_forces_body E X) ps"

section \<open>The estimator with a variable kernel width (Grad-H)\<close>

text \<open>
  The callable that \<^verbatim>\<open>GradHSmoothEstimator::estimate_density\<close> passes to
  \<^verbatim>\<open>newton_raphson\<close>: it recomputes \<^verbatim>\<open>rho[a]\<close> and \<^verbatim>\<open>Omega[a]\<close> for the current
  \<^verbatim>\<open>h[a]\<close> and returns the residual and its derivative.
\<close>

definition GradH_zeta ::
  "GradHSmoothEstimator \<Rightarrow> env \<Rightarrow> nat \<Rightarrow> particle list \<Rightarrow> (real \<times> real) \<times> particle list" where
  "GradH_zeta G X a ps =
     (let eta = coupling G;
          d = length (r (ps ! a));
          ps = upd a (\<lambda>q. q\<lparr>rho := 0\<rparr>) ps;
          ps = upd a (\<lambda>q. q\<lparr>Omega := 0\<rparr>) ps;
          search_radius = radius (smooth_kernel G) (h (ps ! a));
          ps = fold (\<lambda>b ps.
                  let ps = upd a (\<lambda>q. q\<lparr>rho := rho q +
                             m (ps ! b) * kernel_value (smooth_kernel G) (r_ab ps a b) (h (ps ! a))\<rparr>) ps;
                      ps = upd a (\<lambda>q. q\<lparr>Omega := Omega q +
                             m (ps ! b) * radius_deriv (smooth_kernel G) (r_ab ps a b) (h (ps ! a))\<rparr>) ps
                  in ps)
                (nearby X ps a search_radius) ps;
          Rho_a = m (ps ! a) * (eta / h (ps ! a)) ^ d;
          dRho_dh_a = - real d * Rho_a / h (ps ! a);
          zeta_a = Rho_a - rho (ps ! a);
          dzeta_dh_a = dRho_dh_a - Omega (ps ! a);
          ps = upd a (\<lambda>q. q\<lparr>Omega := 1 - Omega q / dRho_dh_a\<rparr>) ps
      in ((zeta_a, dzeta_dh_a), ps))"

text \<open>
  The call \<^verbatim>\<open>newton_raphson(h[a], [&] {...})\<close>, with the default tolerance
  \<^verbatim>\<open>small_number_v\<close> and the default 10 iterations: the status and the cloud it leaves.
\<close>

definition GradH_width_solve ::
  "GradHSmoothEstimator \<Rightarrow> env \<Rightarrow> nat \<Rightarrow> particle list \<Rightarrow> NewtonRaphsonStatus \<times> particle list" where
  "GradH_width_solve G X a ps =
     newton_raphson (small_number_v X) (\<lambda>g. upd a (\<lambda>q. q\<lparr>h := g (h q)\<rparr>))
       (GradH_zeta G X a) (small_number_v X) 10 ps"

text \<open>
  First loop of \<^verbatim>\<open>GradHSmoothEstimator::estimate_density\<close>. The call of the solver is an
  expression statement: its status is dropped.
\<close>

definition GradH_density_body ::
  "GradHSmoothEstimator \<Rightarrow> env \<Rightarrow> nat \<Rightarrow> particle list \<Rightarrow> particle list" where
  "GradH_density_body G X a ps =
     (if fixed (ps ! a) then ps
      else
        let ps = snd (GradH_width_solve G X a ps);
            ps = upd a (\<lambda>q. q\<lparr>p := pressure (eos G) ps a\<rparr>) ps;
            ps = upd a (\<lambda>q. q\<lparr>cs := sound_speed (eos G) ps a\<rparr>) ps
        in ps)"

text \<open>Second loop of \<^verbatim>\<open>GradHSmoothEstimator::estimate_density\<close>: the neighbour callback.\<close>

definition GradH_divcurl_pair ::
  "GradHSmoothEstimator \<Rightarrow> env \<Rightarrow> nat \<Rightarrow> nat \<Rightarrow> particle list \<Rightarrow> particle list" where
  "GradH_divcurl_pair G X a b ps =
     (let grad_aba = grad (smooth_kernel G) (small_number_v X) (r_ab ps a b) (h (ps ! a));
          grad_abb = grad (smooth_kernel G) (small_number_v X) (r_ab ps a b) (h (ps ! b));
          ps = (if has_div_v X then
                  upd a (\<lambda>q. q\<lparr>div_v := div_v q + m (ps ! b) *
                    (dot (vec_div (v (ps ! a)) (pow2 (rho (ps ! a)))) grad_aba +
                     dot (vec_div (v (ps ! b)) (pow2 (rho (ps ! b)))) grad_abb)\<rparr>) ps
                else ps);
          ps = (if has_curl_v X then
                  upd a (\<lambda>q. q\<lparr>curl_v := vec_sub (curl_v q) (vec_scale (m (ps ! b))
                    (vec_add (cross X (vec_div (v (ps ! a)) (pow2 (rho (ps ! a)))) grad_aba)
                             (cross X (vec_div (v (ps ! b)) (pow2 (rho (ps ! b)))) grad_abb)))\<rparr>) ps
                else ps)
      in ps)"

text \<open>
  Second loop of \<^verbatim>\<open>GradHSmoothEstimator::estimate_density\<close>: the body. It does not test
  \<^verbatim>\<open>fixed[a]\<close>.
\<close>

definition GradH_divcurl_body ::
  "GradHSmoothEstimator \<Rightarrow> env \<Rightarrow> nat \<Rightarrow> particle list \<Rightarrow> particle list" where
  "GradH_divcurl_body G X a ps =
     (let ps = (if has_div_v X then upd a (\<lambda>q. q\<lparr>div_v := 0\<rparr>) ps else ps);
          ps = (if has_curl_v X then
                  upd a (\<lambda>q. q\<lparr>curl_v := vec_zero (length (curl_v q))\<rparr>) ps
                else ps);
          search_radius = radius (smooth_kernel G) (h (ps ! a));
          ps = fold (GradH_divcurl_pair G X a) (nearby X ps a search_radius) ps;
          ps = (if has_div_v X then upd a (\<lambda>q. q\<lparr>div_v := div_v q * rho q\<rparr>) ps else ps);
          ps = (if has_curl_v X then
                  upd a (\<lambda>q. q\<lparr>curl_v := vec_scale (rho q) (curl_v q)\<rparr>) ps
                else ps)
      in ps)"

definition GradH_estimate_density ::
  "GradHSmoothEstimator \<Rightarrow> env \<Rightarrow> particle list \<Rightarrow> particle list" where
  "GradH_estimate_density G X ps =
     (let ps = for_each (GradH_density_body G X) ps;
          ps = for_each (GradH_divcurl_body G X) ps
      in ps)"

text \<open>
  The three gradients of the neighbour callback of
  \<^verbatim>\<open>GradHSmoothEstimator::estimate_forces\<close>: \<^verbatim>\<open>grad_aba\<close>, \<^verbatim>\<open>grad_abb\<close> and their
  average \<^verbatim>\<open>grad_ab\<close>.
\<close>

definition GradH_grad_aba :: "GradHSmoothEstimator \<Rightarrow> env \<Rightarrow> particle list \<Rightarrow> nat \<Rightarrow> nat \<Rightarrow> vec" where
  "GradH_grad_aba G X ps a b =
     grad (smooth_kernel G) (small_number_v X) (r_ab ps a b) (h (ps ! a))"

definition GradH_grad_abb :: "GradHSmoothEstimator \<Rightarrow> env \<Rightarrow> particle list \<Rightarrow> nat \<Rightarrow> nat \<Rightarrow> vec" where
  "GradH_grad_abb G X ps a b =
     grad (smooth_kernel G) (small_number_v X) (r_ab ps a b) (h (ps ! b))"

definition GradH_grad_ab :: "GradHSmoothEstimator \<Rightarrow> env \<Rightarrow> particle list \<Rightarrow> nat \<Rightarrow> nat \<Rightarrow> vec" where
  "GradH_grad_ab G X ps a b = avg (GradH_grad_aba G X ps a b) (GradH_grad_abb G X ps a b)"

text \<open>\<^verbatim>\<open>GradHSmoothEstimator::estimate_forces\<close>: the neighbour callback.\<close>

definition GradH_force_pair ::
  "GradHSmoothEstimator \<Rightarrow> env \<Rightarrow> nat \<Rightarrow> nat \<Rightarrow> particle list \<Rightarrow> particle list" where
  "GradH_force_pair G X a b ps =
     (let Pi_ab = kinematic (viscosity G) ps a b;
          grad_aba = GradH_grad_aba G X ps a b;
          grad_abb = GradH_grad_abb G X ps a b;
          grad_ab = GradH_grad_ab G X ps a b;
          ps = upd a (\<lambda>q. q\<lparr>dv_dt := vec_sub (dv_dt q) (vec_scale (m (ps ! b))
                 (vec_add
                    (vec_add
                       (vec_scale (p (ps ! a) / (Omega (ps ! a) * pow2 (rho (ps ! a)))) grad_aba)
                       (vec_scale (p (ps ! b) / (Omega (ps ! b) * pow2 (rho (ps ! b)))) grad_abb))
                    (vec_scale Pi_ab grad_ab)))\<rparr>) ps;
          ps = (if has_eps X \<and> has_deps_dt X then
                  upd a (\<lambda>q. q\<lparr>deps_dt := deps_dt q + m (ps ! b) *
                    (p (ps ! a) / (Omega (ps ! a) * pow2 (rho (ps ! a))) *
                       dot grad_aba (v_ab ps a b) +
                     Pi_ab * dot grad_ab (v_ab ps a b))\<rparr>) ps
                else ps)
      in ps)"

text \<open>
  The part of the body of \<^verbatim>\<open>GradHSmoothEstimator::estimate_forces\<close> up to the end of the
  neighbour loop: the fields are cleared and the pairwise terms summed.
\<close>

definition GradH_force_sum ::
  "GradHSmoothEstimator \<Rightarrow> env \<Rightarrow> nat \<Rightarrow> particle list \<Rightarrow> particle list" where
  "GradH_force_sum G X a ps =
     (let ps = upd a (\<lambda>q. q\<lparr>dv_dt := vec_zero (length (dv_dt q))\<rparr>) ps;
          ps = (if has_eps X \<and> has_deps_dt X then upd a (\<lambda>q. q\<lparr>deps_dt := 0\<rparr>) ps else ps);
          search_radius = radius (smooth_kernel G) (h (ps ! a));
          ps = fold (GradH_force_pair G X a) (nearby X ps a search_radius) ps
      in ps)"

text \<open>
  The body of \<^verbatim>\<open>GradHSmoothEstimator::estimate_forces\<close>. After the neighbour loop comes
  \<^verbatim>\<open>dv_dt[a][1] -= 9.81\<close> (under \<^verbatim>\<open>#if 1\<close>, with the comment \<^verbatim>\<open>TODO: Gravity.\<close>).
  Component 1 exists when the dimension is at least 2.
\<close>

definition GradH_forces_body ::
  "GradHSmoothEstimator \<Rightarrow> env \<Rightarrow> nat \<Rightarrow> particle list \<Rightarrow> particle list" where
  "GradH_forces_body G X a ps =
     (if fixed (ps ! a) then ps
      else
        let ps = GradH_force_sum G X a ps;
            ps = upd a (\<lambda>q. q\<lparr>dv_dt := (dv_dt q)[1 := dv_dt q ! 1 - 981 / 100]\<rparr>) ps;
            ps = (if has_dalpha_dt X then
                    upd a (\<lambda>q. q\<lparr>dalpha_dt := switch_deriv (viscosity G) ps a\<rparr>) ps
                  else ps)
        in ps)"

definition GradH_estimate_forces ::
  "GradHSmoothEstimator \<Rightarrow> env \<Rightarrow> particle list \<Rightarrow> particle list" where
  "GradH_estimate_forces G X ps = for_each (GradH_forces_body G X) ps"

section \<open>Auxiliary notions and example data\<close>

text \<open>
  A particle with \<^verbatim>\<open>div_v\<close> and \<^verbatim>\<open>curl_v\<close> blanked: two particles have the same image
  exactly when they agree on every other field.
\<close>

definition other_than_div_curl :: "particle \<Rightarrow> particle" where
  "other_than_div_curl q = q\<lparr>div_v := 0, curl_v := []\<rparr>"

text \<open>
  Collaborators for the concrete runs below: an equation of state with \<open>p = rho\<close> and unit
  sound speed, no artificial viscosity, and a cloud that declares \<^verbatim>\<open>div_v\<close> only, whose
  neighbour query visits, in index order, every particle closer than the radius (the particle
  itself included). \<^verbatim>\<open>small_number_v\<close> is \<open>2\<^sup>-\<^sup>5\<^sup>2\<close>, the \<^verbatim>\<open>epsilon()\<close> of
  \<^verbatim>\<open>double\<close>.
\<close>

definition plain_eos :: EquationOfState where
  "plain_eos = \<lparr> pressure = (\<lambda>ps a. rho (ps ! a)), sound_speed = (\<lambda>ps a. 1) \<rparr>"

definition no_viscosity :: ArtificialViscosity where
  "no_viscosity = \<lparr> kinematic = (\<lambda>ps a b. 0), switch_deriv = (\<lambda>ps a. 0) \<rparr>"

definition plain_env :: env where
  "plain_env =
     \<lparr> small_number_v = 1 / 2 ^ 52,
       cross = (\<lambda>u w. []),
       nearby = (\<lambda>ps a rad. filter (\<lambda>b. norm_vec (r_ab ps a b) < rad) [0..<length ps]),
       has_div_v = True, has_curl_v = False, has_eps = False, has_deps_dt = False,
       has_alpha = False, has_dalpha_dt = False \<rparr>"

definition classic_cubic :: ClassicSmoothEstimator where
  "classic_cubic =
     \<lparr> eos = plain_eos, smooth_kernel = CubicSmoothingKernel, viscosity = no_viscosity,
       kernel_width = 1 \<rparr>"

definition gradh_cubic :: GradHSmoothEstimator where
  "gradh_cubic =
     \<lparr> eos = plain_eos, smooth_kernel = CubicSmoothingKernel, viscosity = no_viscosity,
       coupling = 1 \<rparr>"

text \<open>
  A particle at rest with unit mass, width, density, pressure and correction factor, at the
  given position, with the given flag and velocity divergence.
\<close>

definition particle_at :: "bool \<Rightarrow> vec \<Rightarrow> real \<Rightarrow> particle" where
  "particle_at fx x dv =
     \<lparr> fixed = fx, h = 1, Omega = 1, m = 1, rho = 1, p = 1, cs = 1, r = x,
       v = vec_zero (length x), dv_dt = vec_zero (length x), div_v = dv, curl_v = [],
       eps = 0, deps_dt = 0, alpha = 0, dalpha_dt = 0 \<rparr>"

text \<open>
  A cloud of one free particle on the line, at the origin, with the given width, density and
  correction factor.
\<close>

definition lone_particle :: "real \<Rightarrow> real \<Rightarrow> real \<Rightarrow> particle list" where
  "lone_particle w d c = [(particle_at False [0] 0)\<lparr>h := w, rho := d, Omega := c\<rparr>]"

text \<open>
  A cloud of two free particles in the plane, one unit apart, with widths 1 and 2 and
  pressures 1 and 3.
\<close>

definition two_particles :: "particle list" where
  "two_particles =
     [particle_at False [0, 0] 0, (particle_at False [1, 0] 0)\<lparr>h := 2, p := 3\<rparr>]"


section \<open>Newton-Raphson\<close>

lemma newton_raphson_Suc:
  "newton_raphson sn upd_x f tol (Suc n) s =
     (if \<bar>residual f s\<bar> \<le> tol then (NewtonRaphsonStatus.success, snd (f s))
      else if \<bar>derivative f s\<bar> \<le> sn then (NewtonRaphsonStatus.fail_zero_deriv, snd (f s))
      else newton_raphson sn upd_x f tol n (newton_step upd_x f s))"
  by (simp add: residual_def derivative_def newton_step_def is_small_def split: prod.splits)

lemma newton_raphson_run:
  assumes "\<forall>j<k. tol < \<bar>residual f ((newton_step upd_x f ^^ j) s)\<bar>
                \<and> sn < \<bar>derivative f ((newton_step upd_x f ^^ j) s)\<bar>"
    and "k \<le> n"
  shows "newton_raphson sn upd_x f tol n s =
         newton_raphson sn upd_x f tol (n - k) ((newton_step upd_x f ^^ k) s)"
  using assms
proof (induction k arbitrary: s n)
  case 0
  then show ?case by simp
next
  case (Suc k)
  then obtain n' where n: "n = Suc n'" by (cases n) auto
  from Suc.prems(1) have first: "tol < \<bar>residual f s\<bar>" "sn < \<bar>derivative f s\<bar>"
    by force+
  have rest: "\<forall>j<k. tol < \<bar>residual f ((newton_step upd_x f ^^ j) (newton_step upd_x f s))\<bar>
                \<and> sn < \<bar>derivative f ((newton_step upd_x f ^^ j) (newton_step upd_x f s))\<bar>"
  proof (intro allI impI)
    fix j assume "j < k"
    then have "Suc j < Suc k" by simp
    with Suc.prems(1) show "tol < \<bar>residual f ((newton_step upd_x f ^^ j) (newton_step upd_x f s))\<bar>
                \<and> sn < \<bar>derivative f ((newton_step upd_x f ^^ j) (newton_step upd_x f s))\<bar>"
      by (metis funpow_simps_right(2) o_apply)
  qed
  have "newton_raphson sn upd_x f tol n s =
        newton_raphson sn upd_x f tol n' (newton_step upd_x f s)"
    unfolding n newton_raphson_Suc using first by simp
  also have "\<dots> = newton_raphson sn upd_x f tol (n' - k)
                    ((newton_step upd_x f ^^ k) (newton_step upd_x f s))"
    using Suc.IH [OF rest] Suc.prems(2) n by simp
  finally show ?case by (simp add: n funpow_swap1)
qed

text \<open>
  The specification's own example: for \<open>x\<^sup>2 - 2\<close> with derivative \<open>2x\<close> the solver started at
  0 stops at once with \<open>fail_zero_deriv\<close>.
\<close>

lemma newton_raphson_sqrt2_from_zero:
  "newton_raphson (1 / 2 ^ 52) scalar_upd (scalar_fun (\<lambda>x. (x * x - 2, 2 * x))) (1 / 2 ^ 52) 10 0
     = (NewtonRaphsonStatus.fail_zero_deriv, 0)"
  by (simp add: scalar_upd_def scalar_fun_def is_small_def eval_nat_numeral)

text \<open>
  Claim C5, as stated: \<^verbatim>\<open>newton_raphson\<close> returns \<open>fail_zero_deriv\<close> when the absolute
  value of the derivative is smaller than the tolerance \<^verbatim>\<open>eps\<close> it was called with. It
  does not: the test is \<^verbatim>\<open>is_small(df_dx)\<close>, against the constant \<^verbatim>\<open>small_number_v\<close>.
  For \<open>f(x) = x/2\<close> with derivative \<open>1/2\<close>, started at 4 with tolerance 1 and
  \<^verbatim>\<open>small_number_v\<close> \<open>= 2\<^sup>-\<^sup>5\<^sup>2\<close>, the residual 2 exceeds the tolerance and the derivative is
  below it, and the solver goes on to \<open>x = 0\<close> and returns \<open>success\<close>.
\<close>

theorem newton_raphson_zero_deriv_counterexample:
  "\<bar>derivative (scalar_fun (\<lambda>x. (x / 2, 1 / 2))) 4\<bar> < 1
   \<and> 1 < \<bar>residual (scalar_fun (\<lambda>x. (x / 2, 1 / 2))) 4\<bar>
   \<and> newton_raphson (1 / 2 ^ 52) scalar_upd (scalar_fun (\<lambda>x. (x / 2, 1 / 2))) 1 10 4
       = (NewtonRaphsonStatus.success, 0)"
  by (simp add: residual_def derivative_def scalar_upd_def scalar_fun_def is_small_def
      eval_nat_numeral)

text \<open>
  Claim C5, amended: let \<open>k\<close> iterations pass with both the residual above the tolerance and
  the derivative above \<^verbatim>\<open>small_number_v\<close> in absolute value, each ending in the update
  \<^verbatim>\<open>x -= y / df_dx\<close>. If \<open>k\<close> is \<^verbatim>\<open>max_iter\<close> the solver returns \<open>fail_max_iter\<close>.
  Otherwise the next call of the callable decides: a residual of absolute value at most the
  tolerance gives \<open>success\<close>; failing that, a derivative of absolute value at most
  \<^verbatim>\<open>small_number_v\<close> (not the tolerance passed) gives \<open>fail_zero_deriv\<close>. In both cases the
  estimate is the one that call saw.
\<close>

theorem newton_raphson_outcome:
  assumes "\<forall>j<k. tol < \<bar>residual f ((newton_step upd_x f ^^ j) s)\<bar>
                \<and> sn < \<bar>derivative f ((newton_step upd_x f ^^ j) s)\<bar>"
    and "k \<le> max_iter"
  shows "(k = max_iter \<longrightarrow>
            newton_raphson sn upd_x f tol max_iter s =
              (NewtonRaphsonStatus.fail_max_iter, (newton_step upd_x f ^^ k) s))
       \<and> (k < max_iter \<and> \<bar>residual f ((newton_step upd_x f ^^ k) s)\<bar> \<le> tol \<longrightarrow>
            newton_raphson sn upd_x f tol max_iter s =
              (NewtonRaphsonStatus.success, snd (f ((newton_step upd_x f ^^ k) s))))
       \<and> (k < max_iter \<and> tol < \<bar>residual f ((newton_step upd_x f ^^ k) s)\<bar>
            \<and> \<bar>derivative f ((newton_step upd_x f ^^ k) s)\<bar> \<le> sn \<longrightarrow>
            newton_raphson sn upd_x f tol max_iter s =
              (NewtonRaphsonStatus.fail_zero_deriv, snd (f ((newton_step upd_x f ^^ k) s))))"
proof -
  note run = newton_raphson_run [OF assms]
  have a: "k = max_iter \<Longrightarrow> newton_raphson sn upd_x f tol max_iter s =
              (NewtonRaphsonStatus.fail_max_iter, (newton_step upd_x f ^^ k) s)"
    using run by simp
  have suc: "k < max_iter \<Longrightarrow> max_iter - k = Suc (max_iter - k - 1)" by simp
  have b: "k < max_iter \<Longrightarrow> \<bar>residual f ((newton_step upd_x f ^^ k) s)\<bar> \<le> tol \<Longrightarrow>
            newton_raphson sn upd_x f tol max_iter s =
              (NewtonRaphsonStatus.success, snd (f ((newton_step upd_x f ^^ k) s)))"
    using run suc newton_raphson_Suc [of sn upd_x f tol "max_iter - k - 1"] by simp
  have c: "k < max_iter \<Longrightarrow> tol < \<bar>residual f ((newton_step upd_x f ^^ k) s)\<bar> \<Longrightarrow>
             \<bar>derivative f ((newton_step upd_x f ^^ k) s)\<bar> \<le> sn \<Longrightarrow>
            newton_raphson sn upd_x f tol max_iter s =
              (NewtonRaphsonStatus.fail_zero_deriv, snd (f ((newton_step upd_x f ^^ k) s)))"
    using run suc newton_raphson_Suc [of sn upd_x f tol "max_iter - k - 1"] by simp
  from a b c show ?thesis by blast
qed

lemma sqrt2_iterates:
  "(newton_step scalar_upd (scalar_fun (\<lambda>x. (x * x - 2, 2 * x))) ^^ 0) 1 = 1"
  "(newton_step scalar_upd (scalar_fun (\<lambda>x. (x * x - 2, 2 * x))) ^^ 1) 1 = 3 / 2"
  "(newton_step scalar_upd (scalar_fun (\<lambda>x. (x * x - 2, 2 * x))) ^^ 2) 1 = 17 / 12"
  by (simp_all add: newton_step_def scalar_upd_def scalar_fun_def eval_nat_numeral)

theorem newton_raphson_outcome_witness:
  "1 / 100 < \<bar>residual (scalar_fun (\<lambda>x. (x * x - 2, 2 * x)))
              ((newton_step scalar_upd (scalar_fun (\<lambda>x. (x * x - 2, 2 * x))) ^^ 0) 1)\<bar>
   \<and> 1 / 2 ^ 52 < \<bar>derivative (scalar_fun (\<lambda>x. (x * x - 2, 2 * x)))
              ((newton_step scalar_upd (scalar_fun (\<lambda>x. (x * x - 2, 2 * x))) ^^ 0) 1)\<bar>
   \<and> 1 / 100 < \<bar>residual (scalar_fun (\<lambda>x. (x * x - 2, 2 * x)))
              ((newton_step scalar_upd (scalar_fun (\<lambda>x. (x * x - 2, 2 * x))) ^^ 1) 1)\<bar>
   \<and> 1 / 2 ^ 52 < \<bar>derivative (scalar_fun (\<lambda>x. (x * x - 2, 2 * x)))
              ((newton_step scalar_upd (scalar_fun (\<lambda>x. (x * x - 2, 2 * x))) ^^ 1) 1)\<bar>
   \<and> (2::nat) < 10
   \<and> \<bar>residual (scalar_fun (\<lambda>x. (x * x - 2, 2 * x)))
         ((newton_step scalar_upd (scalar_fun (\<lambda>x. (x * x - 2, 2 * x))) ^^ 2) 1)\<bar> \<le> 1 / 100
   \<and> newton_raphson (1 / 2 ^ 52) scalar_upd (scalar_fun (\<lambda>x. (x * x - 2, 2 * x))) (1 / 100) 10 1
       = (NewtonRaphsonStatus.success, 17 / 12)"
proof -
  let ?f = "scalar_fun (\<lambda>x. (x * x - 2, 2 * x))"
  have h: "\<forall>j<2. 1 / 100 < \<bar>residual ?f ((newton_step scalar_upd ?f ^^ j) 1)\<bar>
         \<and> 1 / 2 ^ 52 < \<bar>derivative ?f ((newton_step scalar_upd ?f ^^ j) 1)\<bar>"
  proof (intro allI impI)
    fix j :: nat assume "j < 2"
    then consider "j = 0" | "j = 1" by linarith
    then show "1 / 100 < \<bar>residual ?f ((newton_step scalar_upd ?f ^^ j) 1)\<bar>
         \<and> 1 / 2 ^ 52 < \<bar>derivative ?f ((newton_step scalar_upd ?f ^^ j) 1)\<bar>"
    proof cases
      case 1
      show ?thesis unfolding 1 sqrt2_iterates(1)
        by (simp add: residual_def derivative_def scalar_fun_def)
    next
      case 2
      show ?thesis unfolding 2 sqrt2_iterates(2)
        by (simp add: residual_def derivative_def scalar_fun_def)
    qed
  qed
  have r: "\<bar>residual ?f ((newton_step scalar_upd ?f ^^ 2) 1)\<bar> \<le> 1 / 100"
    unfolding sqrt2_iterates(3) by (simp add: residual_def scalar_fun_def)
  have k: "(2::nat) \<le> 10" by simp
  from newton_raphson_outcome [OF h k] r
  have "newton_raphson (1 / 2 ^ 52) scalar_upd ?f (1 / 100) 10 1
       = (NewtonRaphsonStatus.success, snd (?f ((newton_step scalar_upd ?f ^^ 2) 1)))"
    by simp
  then have "newton_raphson (1 / 2 ^ 52) scalar_upd ?f (1 / 100) 10 1
       = (NewtonRaphsonStatus.success, 17 / 12)"
    unfolding sqrt2_iterates(3) by (simp add: scalar_fun_def)
  moreover have "(0::nat) < 2" "(1::nat) < 2" by simp_all
  with h have "1 / 100 < \<bar>residual ?f ((newton_step scalar_upd ?f ^^ 0) 1)\<bar>
         \<and> 1 / 2 ^ 52 < \<bar>derivative ?f ((newton_step scalar_upd ?f ^^ 0) 1)\<bar>"
    and "1 / 100 < \<bar>residual ?f ((newton_step scalar_upd ?f ^^ 1) 1)\<bar>
         \<and> 1 / 2 ^ 52 < \<bar>derivative ?f ((newton_step scalar_upd ?f ^^ 1) 1)\<bar>"
    by blast+
  ultimately show ?thesis using r by simp
qed

section \<open>Bisection\<close>
























text \<open>
  Claim C6, as stated: whenever the residuals at the two ends of the bracket have the same
  sign, \<^verbatim>\<open>bisection\<close> returns \<open>failure_sign\<close>. It does not when an end is already within
  the tolerance (the ends are tested first and give \<open>success\<close>), nor when \<^verbatim>\<open>max_iter\<close>
  is 0 (the loop, which holds the sign test, is not entered).
\<close>

theorem bisection_same_sign_counterexample:
  "sign ((\<lambda>x. x) (1 / 4)) = sign ((\<lambda>x. x) 1)
   \<and> bisection round_double (1 / 4) 1 (\<lambda>x. x) (1 / 2) 10 = (BisectionStatus.success, 1 / 4, 1 / 4)
   \<and> sign ((\<lambda>x. x) 1) = sign ((\<lambda>x. x) 2)
   \<and> bisection round_double 1 2 (\<lambda>x. x) (1 / 2) 0 = (BisectionStatus.fail_max_iter, 1, 2)"
  by (simp add: bisection_def Let_def sign_def)

text \<open>
  Claim C6, amended: when the residuals at the two ends have the same sign, both exceed the
  tolerance in absolute value and \<^verbatim>\<open>max_iter\<close> is positive, \<^verbatim>\<open>bisection\<close> returns
  \<open>failure_sign\<close> and leaves the bracket as it was, whatever the rounding of the number type.
\<close>

theorem bisection_same_sign:
  assumes "sign (f min_x) = sign (f max_x)" "tol < \<bar>f min_x\<bar>" "tol < \<bar>f max_x\<bar>" "0 < max_iter"
  shows "bisection rnd min_x max_x f tol max_iter = (BisectionStatus.failure_sign, min_x, max_x)"
proof -
  obtain n where n: "max_iter = Suc n" using assms(4) by (cases max_iter) auto
  show ?thesis using assms(1-3) unfolding n by (simp add: bisection_def Let_def)
qed

theorem bisection_same_sign_witness:
  "sign ((\<lambda>x. x) 1) = sign ((\<lambda>x. x) 2)
   \<and> 1 / 2 < \<bar>(\<lambda>x::real. x) 1\<bar> \<and> 1 / 2 < \<bar>(\<lambda>x::real. x) 2\<bar> \<and> (0::nat) < 10
   \<and> bisection round_double 1 2 (\<lambda>x. x) (1 / 2) 10 = (BisectionStatus.failure_sign, 1, 2)"
  using bisection_same_sign [of "\<lambda>x. x" 1 2 "1 / 2" 10 round_double] by (simp add: sign_def)

section \<open>Kernel gradients\<close>

lemma norm_vec_neg: "norm_vec (vec_neg x) = norm_vec x"
proof -
  have "map2 (*) (map uminus x) (map uminus x) = map2 (*) x x"
    by (induction x) simp_all
  then show ?thesis by (simp add: norm_vec_def dot_def vec_neg_def)
qed

lemma vec_scale_neg: "vec_scale c (vec_neg x) = vec_neg (vec_scale c x)"
  by (simp add: vec_scale_def vec_neg_def)

lemma vec_neg_neg: "vec_neg (vec_neg x) = x"
  by (simp add: vec_neg_def o_def)

lemma length_vec_neg: "length (vec_neg x) = length x"
  by (simp add: vec_neg_def)

lemma grad_neg: "grad K sn (vec_neg x) w = vec_neg (grad K sn x w)"
  by (simp add: grad_def Let_def norm_vec_neg vec_scale_neg length_vec_neg)

text \<open>
  Claim C8: for every kernel, every width and every displacement, the gradient at a
  displacement is the negation of the gradient at the opposite displacement, and the gradient
  at the zero displacement is the zero vector. (The width need not even be positive, and the
  value \<^verbatim>\<open>safe_divide\<close> returns plays no part.)
\<close>

theorem grad_antisymmetric:
  "grad K sn x w = vec_neg (grad K sn (vec_neg x) w)
   \<and> grad K sn (vec_zero n) w = vec_zero n"
  by (simp add: grad_neg vec_neg_neg) (simp add: grad_def Let_def vec_zero_def vec_scale_def)

section \<open>Continuity of the kernel profiles\<close>

lemma left_limit_of_piece:
  fixes f g :: "real \<Rightarrow> real"
  assumes "lo < b" and "\<And>q. lo < q \<Longrightarrow> q < b \<Longrightarrow> f q = g q"
    and "isCont g b" and "g b = f b"
  shows "(f \<longlongrightarrow> f b) (at_left b)"
proof -
  have ev: "eventually (\<lambda>q. g q = f q) (at_left b)"
    unfolding eventually_at_left_field using assms(1,2) by (intro exI [of _ lo]) simp
  have "(g \<longlongrightarrow> g b) (at b)" using assms(3) by (simp add: isCont_def)
  then have "(g \<longlongrightarrow> g b) (at_left b)" by (rule filterlim_mono) (simp_all add: at_le)
  then have "(g \<longlongrightarrow> f b) (at_left b)" by (simp add: assms(4))
  then show ?thesis using ev by (rule Lim_transform_eventually)
qed

lemmas pow_defs = pow2_def pow3_def pow4_def pow5_def Let_def

text \<open>
  At every boundary between two pieces, and at the end of the support, the value from below
  agrees with the value at the boundary, with one exception, treated next. (At a boundary the
  function takes the value of the piece above, and it agrees with that piece on the right.)
\<close>

lemma cubic_boundaries_agree:
  "(Cubic_unit_value \<longlongrightarrow> Cubic_unit_value 1) (at_left 1)"
  "(Cubic_unit_value \<longlongrightarrow> Cubic_unit_value 2) (at_left 2)"
  "(Cubic_unit_deriv \<longlongrightarrow> Cubic_unit_deriv 1) (at_left 1)"
  "(Cubic_unit_deriv \<longlongrightarrow> Cubic_unit_deriv 2) (at_left 2)"
  "(ThomasCouchman_unit_deriv \<longlongrightarrow> ThomasCouchman_unit_deriv (2 / 3)) (at_left (2 / 3))"
  "(ThomasCouchman_unit_deriv \<longlongrightarrow> ThomasCouchman_unit_deriv 2) (at_left 2)"
proof -
  show "(Cubic_unit_value \<longlongrightarrow> Cubic_unit_value 1) (at_left 1)"
    by (rule left_limit_of_piece [where lo = 0 and g = "\<lambda>q. 1 / 4 * pow3 (2 - q) - pow3 (1 - q)"])
       (simp_all add: Cubic_unit_value_def pow_defs)
  show "(Cubic_unit_value \<longlongrightarrow> Cubic_unit_value 2) (at_left 2)"
    by (rule left_limit_of_piece [where lo = 1 and g = "\<lambda>q. 1 / 4 * pow3 (2 - q)"])
       (simp_all add: Cubic_unit_value_def pow_defs)
  show "(Cubic_unit_deriv \<longlongrightarrow> Cubic_unit_deriv 1) (at_left 1)"
    by (rule left_limit_of_piece
          [where lo = 0 and g = "\<lambda>q. - (3 / 4) * pow2 (2 - q) + 3 * pow2 (1 - q)"])
       (simp_all add: Cubic_unit_deriv_def pow_defs)
  show "(Cubic_unit_deriv \<longlongrightarrow> Cubic_unit_deriv 2) (at_left 2)"
    by (rule left_limit_of_piece [where lo = 1 and g = "\<lambda>q. - (3 / 4) * pow2 (2 - q)"])
       (simp_all add: Cubic_unit_deriv_def pow_defs)
  show "(ThomasCouchman_unit_deriv \<longlongrightarrow> ThomasCouchman_unit_deriv (2 / 3)) (at_left (2 / 3))"
    by (rule left_limit_of_piece [where lo = 0 and g = "\<lambda>q. - 1"])
       (simp_all add: ThomasCouchman_unit_deriv_def pow_defs)
  show "(ThomasCouchman_unit_deriv \<longlongrightarrow> ThomasCouchman_unit_deriv 2) (at_left 2)"
    by (rule left_limit_of_piece [where lo = 1 and g = "\<lambda>q. 3 / 4 * pow2 (2 - q)"])
       (simp_all add: ThomasCouchman_unit_deriv_def pow_defs)
qed

lemma quartic_boundaries_agree:
  "(Quartic_unit_value \<longlongrightarrow> Quartic_unit_value (1 / 2)) (at_left (1 / 2))"
  "(Quartic_unit_value \<longlongrightarrow> Quartic_unit_value (3 / 2)) (at_left (3 / 2))"
  "(Quartic_unit_value \<longlongrightarrow> Quartic_unit_value (5 / 2)) (at_left (5 / 2))"
  "(Quartic_unit_deriv \<longlongrightarrow> Quartic_unit_deriv (1 / 2)) (at_left (1 / 2))"
  "(Quartic_unit_deriv \<longlongrightarrow> Quartic_unit_deriv (3 / 2)) (at_left (3 / 2))"
  "(Quartic_unit_deriv \<longlongrightarrow> Quartic_unit_deriv (5 / 2)) (at_left (5 / 2))"
proof -
  show "(Quartic_unit_value \<longlongrightarrow> Quartic_unit_value (1 / 2)) (at_left (1 / 2))"
    by (rule left_limit_of_piece [where lo = 0 and g = "\<lambda>q.
          1 * pow4 (5 / 2 - q) - 5 * pow4 (3 / 2 - q) + 10 * pow4 (1 / 2 - q)"])
       (simp_all add: Quartic_unit_value_def pow_defs)
  show "(Quartic_unit_value \<longlongrightarrow> Quartic_unit_value (3 / 2)) (at_left (3 / 2))"
    by (rule left_limit_of_piece [where lo = "1 / 2" and g = "\<lambda>q.
          1 * pow4 (5 / 2 - q) - 5 * pow4 (3 / 2 - q)"])
       (simp_all add: Quartic_unit_value_def pow_defs)
  show "(Quartic_unit_value \<longlongrightarrow> Quartic_unit_value (5 / 2)) (at_left (5 / 2))"
    by (rule left_limit_of_piece [where lo = "3 / 2" and g = "\<lambda>q. 1 * pow4 (5 / 2 - q)"])
       (simp_all add: Quartic_unit_value_def pow_defs)
  show "(Quartic_unit_deriv \<longlongrightarrow> Quartic_unit_deriv (1 / 2)) (at_left (1 / 2))"
    by (rule left_limit_of_piece [where lo = 0 and g = "\<lambda>q.
          - 4 * pow3 (5 / 2 - q) + 20 * pow3 (3 / 2 - q) - 40 * pow3 (1 / 2 - q)"])
       (simp_all add: Quartic_unit_deriv_def pow_defs)
  show "(Quartic_unit_deriv \<longlongrightarrow> Quartic_unit_deriv (3 / 2)) (at_left (3 / 2))"
    by (rule left_limit_of_piece [where lo = "1 / 2" and g = "\<lambda>q.
          - 4 * pow3 (5 / 2 - q) + 20 * pow3 (3 / 2 - q)"])
       (simp_all add: Quartic_unit_deriv_def pow_defs)
  show "(Quartic_unit_deriv \<longlongrightarrow> Quartic_unit_deriv (5 / 2)) (at_left (5 / 2))"
    by (rule left_limit_of_piece [where lo = "3 / 2" and g = "\<lambda>q. - 4 * pow3 (5 / 2 - q)"])
       (simp_all add: Quartic_unit_deriv_def pow_defs)
qed

lemma quintic_boundaries_agree:
  "(Quintic_unit_value \<longlongrightarrow> Quintic_unit_value 1) (at_left 1)"
  "(Quintic_unit_value \<longlongrightarrow> Quintic_unit_value 2) (at_left 2)"
  "(Quintic_unit_value \<longlongrightarrow> Quintic_unit_value 3) (at_left 3)"
  "(Quintic_unit_deriv \<longlongrightarrow> Quintic_unit_deriv 1) (at_left 1)"
  "(Quintic_unit_deriv \<longlongrightarrow> Quintic_unit_deriv 2) (at_left 2)"
  "(Quintic_unit_deriv \<longlongrightarrow> Quintic_unit_deriv 3) (at_left 3)"
proof -
  show "(Quintic_unit_value \<longlongrightarrow> Quintic_unit_value 1) (at_left 1)"
    by (rule left_limit_of_piece [where lo = 0 and g = "\<lambda>q.
          1 * pow5 (3 - q) - 6 * pow5 (2 - q) + 15 * pow5 (1 - q)"])
       (simp_all add: Quintic_unit_value_def pow_defs)
  show "(Quintic_unit_value \<longlongrightarrow> Quintic_unit_value 2) (at_left 2)"
    by (rule left_limit_of_piece [where lo = 1 and g = "\<lambda>q.
          1 * pow5 (3 - q) - 6 * pow5 (2 - q)"])
       (simp_all add: Quintic_unit_value_def pow_defs)
  show "(Quintic_unit_value \<longlongrightarrow> Quintic_unit_value 3) (at_left 3)"
    by (rule left_limit_of_piece [where lo = 2 and g = "\<lambda>q. pow5 (3 - q)"])
       (simp_all add: Quintic_unit_value_def pow_defs)
  show "(Quintic_unit_deriv \<longlongrightarrow> Quintic_unit_deriv 1) (at_left 1)"
    by (rule left_limit_of_piece [where lo = 0 and g = "\<lambda>q.
          - 5 * pow4 (3 - q) + 30 * pow4 (2 - q) - 75 * pow4 (1 - q)"])
       (simp_all add: Quintic_unit_deriv_def pow_defs)
  show "(Quintic_unit_deriv \<longlongrightarrow> Quintic_unit_deriv 2) (at_left 2)"
    by (rule left_limit_of_piece [where lo = 1 and g = "\<lambda>q.
          - 5 * pow4 (3 - q) + 30 * pow4 (2 - q)"])
       (simp_all add: Quintic_unit_deriv_def pow_defs)
  show "(Quintic_unit_deriv \<longlongrightarrow> Quintic_unit_deriv 3) (at_left 3)"
    by (rule left_limit_of_piece [where lo = 2 and g = "\<lambda>q. - 5 * pow4 (3 - q)"])
       (simp_all add: Quintic_unit_deriv_def pow_defs)
qed

lemma ThomasCouchman_unit_deriv_at_1: "ThomasCouchman_unit_deriv 1 = 3 / 4"
  by (simp add: ThomasCouchman_unit_deriv_def pow2_def)

lemma ThomasCouchman_unit_deriv_left_of_1: "(ThomasCouchman_unit_deriv \<longlongrightarrow> - (3 / 4)) (at_left 1)"
proof -
  have ev: "eventually (\<lambda>q. ThomasCouchman_unit_deriv q = (9 / 4 * q - 3) * q) (at_left 1)"
    unfolding eventually_at_left_field
    by (rule exI [of _ "2 / 3"]) (simp add: ThomasCouchman_unit_deriv_def)
  have "((\<lambda>q::real. (9 / 4 * q - 3) * q) \<longlongrightarrow> (9 / 4 * 1 - 3) * 1) (at_left 1)"
    by (intro tendsto_intros)
  then have "((\<lambda>q::real. (9 / 4 * q - 3) * q) \<longlongrightarrow> - (3 / 4)) (at_left 1)" by simp
  with ev show ?thesis
    using tendsto_cong by (metis (mono_tags, lifting) eventually_mono)
qed


lemma ThomasCouchman_unit_deriv_not_continuous: "\<not> isCont ThomasCouchman_unit_deriv 1"
proof
  assume "isCont ThomasCouchman_unit_deriv 1"
  then have "(ThomasCouchman_unit_deriv \<longlongrightarrow> ThomasCouchman_unit_deriv 1) (at 1)"
    by (simp add: isCont_def)
  then have "(ThomasCouchman_unit_deriv \<longlongrightarrow> ThomasCouchman_unit_deriv 1) (at_left 1)"
    by (rule filterlim_mono) (simp_all add: at_le)
  from tendsto_unique [OF _ this ThomasCouchman_unit_deriv_left_of_1] have "ThomasCouchman_unit_deriv 1 = - (3 / 4)"
    by simp
  with ThomasCouchman_unit_deriv_at_1 show False by simp
qed

text \<open>
  The cubic kernel, whose profile the Thomas-Couchman kernel shares and whose derivative it
  modifies below \<open>q = 1\<close> only, has the other sign on the same piece: its derivative is
  \<open>-3/4\<close> at \<open>q = 1\<close>.
\<close>

lemma Cubic_unit_deriv_at_1: "Cubic_unit_deriv 1 = - (3 / 4)"
  by (simp add: Cubic_unit_deriv_def pow2_def)

text \<open>
  Claim C3 fails for the Thomas-Couchman kernel: at the boundary \<open>q = 1\<close> the piece
  below, \<open>(2.25 q - 3) q\<close>, tends to \<open>-3/4\<close>, and the piece above,
  \<open>0.75 (2 - q)\<^sup>2\<close>, has the value \<open>+3/4\<close>: \<^verbatim>\<open>unit_deriv\<close> jumps by \<open>3/2\<close>
  and is not continuous there.
\<close>

theorem ThomasCouchman_unit_deriv_jump:
  "unit_deriv ThomasCouchmanSmoothingKernel 1 = 3 / 4
   \<and> (unit_deriv ThomasCouchmanSmoothingKernel \<longlongrightarrow> - (3 / 4)) (at_left 1)
   \<and> \<not> isCont (unit_deriv ThomasCouchmanSmoothingKernel) 1"
  using ThomasCouchman_unit_deriv_at_1 ThomasCouchman_unit_deriv_left_of_1
    ThomasCouchman_unit_deriv_not_continuous
  by (simp add: ThomasCouchmanSmoothingKernel_def)

section \<open>The static partitioner\<close>

lemma divide_up_ceiling:
  assumes "0 < b"
  shows "divide_up a b = nat \<lceil>real a / real b\<rceil>"
proof -
  define q where "q = (a + b - 1) div b"
  have 1: "q * b \<le> a + b - 1" by (simp add: q_def)
  have 2: "a + b - 1 < b + q * b"
    unfolding q_def using assms by (rule dividend_less_div_times)
  from 2 assms have up: "a \<le> q * b" by linarith
  from 1 assms have lo: "q * b < a + b" by linarith
  have rb: "0 < real b" using assms by simp
  have "real a \<le> real q * real b" using up by (metis of_nat_le_iff of_nat_mult)
  then have A: "real a / real b \<le> real q" using rb by (simp add: pos_divide_le_eq)
  have "real q * real b < real a + real b" using lo by (metis of_nat_less_iff of_nat_mult of_nat_add)
  then have "(real q - 1) * real b < real a" by (simp add: algebra_simps)
  then have B: "real q - 1 < real a / real b" using rb by (simp add: pos_less_divide_eq)
  have "\<lceil>real a / real b\<rceil> = int q"
    by (rule ceiling_unique) (use A B in simp_all)
  then show ?thesis by (simp add: divide_up_def q_def)
qed

text \<open>
  Claim C9: for a non-empty range, \<^verbatim>\<open>StaticPartitioner::blockify\<close> returns the blocked
  range from the begin to the end of the range whose grain size is the size of the range
  divided by the number of threads, rounded up. The grain size is then positive, as
  \<^verbatim>\<open>blocked_range\<close> requires.
\<close>

theorem StaticPartitioner_blockify_grain:
  assumes "rng \<noteq> []" and "0 < num_threads"
  shows "br_begin (StaticPartitioner_blockify num_threads rng) = 0
       \<and> br_end (StaticPartitioner_blockify num_threads rng) = length rng
       \<and> br_grainsize (StaticPartitioner_blockify num_threads rng)
           = nat \<lceil>real (length rng) / real num_threads\<rceil>
       \<and> 0 < br_grainsize (StaticPartitioner_blockify num_threads rng)"
proof -
  have "0 < length rng" using assms(1) by simp
  then have "num_threads \<le> length rng + num_threads - 1" by linarith
  then have "0 < divide_up (length rng) num_threads"
    unfolding divide_up_def using assms(2) by (simp add: div_greater_zero_iff)
  then show ?thesis
    by (simp add: StaticPartitioner_blockify_def Let_def divide_up_ceiling [OF assms(2)])
qed

theorem StaticPartitioner_blockify_grain_witness:
  "[10, 20, 30, 40, 50 :: nat] \<noteq> [] \<and> (0::nat) < 2
   \<and> StaticPartitioner_blockify 2 [10, 20, 30, 40, 50 :: nat]
       = \<lparr> br_begin = 0, br_end = 5, br_grainsize = 3 \<rparr>
   \<and> nat \<lceil>real (length [10, 20, 30, 40, 50 :: nat]) / real (2::nat)\<rceil> = 3"
  using StaticPartitioner_blockify_grain [of "[10, 20, 30, 40, 50 :: nat]" 2]
  by (simp add: StaticPartitioner_blockify_def divide_up_def)

section \<open>What each loop body may write\<close>

text \<open>
  Every body, and every neighbour callback, writes particle \<open>a\<close> only and keeps the
  number of particles.
\<close>

lemma length_upd [simp]: "length (upd a g ps) = length ps"
  by (simp add: upd_def)

lemma nth_upd_other [simp]: "i \<noteq> a \<Longrightarrow> upd a g ps ! i = ps ! i"
  by (simp add: upd_def)

lemma nth_upd_same: "a < length ps \<Longrightarrow> upd a g ps ! a = g (ps ! a)"
  by (simp add: upd_def)

lemma upd_proj: "(\<And>q. \<pi> (g q) = \<pi> q) \<Longrightarrow> \<pi> (upd a g ps ! i) = \<pi> (ps ! i)"
  by (cases "i = a"; cases "a < length ps") (simp_all add: upd_def list_update_beyond)

lemma fold_length:
  "(\<And>b ps. length (F b ps) = length ps) \<Longrightarrow> length (fold F bs ps) = length ps"
  by (induction bs arbitrary: ps) simp_all

lemma fold_nth:
  "(\<And>b ps. F b ps ! i = ps ! i) \<Longrightarrow> fold F bs ps ! i = ps ! i"
  by (induction bs arbitrary: ps) simp_all

lemma fold_invariant:
  assumes "\<And>x s. I s \<Longrightarrow> I (F x s)" and "I s"
  shows "I (fold F xs s)"
  using assms(2) by (induction xs arbitrary: s) (simp_all add: assms(1))

lemma Classic_density_body_frame:
  "length (Classic_density_body E X a ps) = length ps
   \<and> (i \<noteq> a \<longrightarrow> Classic_density_body E X a ps ! i = ps ! i)"
  by (simp add: Classic_density_body_def Let_def fold_length fold_nth)

lemma Classic_divcurl_pair_frame:
  "length (Classic_divcurl_pair E X a b ps) = length ps
   \<and> (i \<noteq> a \<longrightarrow> Classic_divcurl_pair E X a b ps ! i = ps ! i)"
  by (simp add: Classic_divcurl_pair_def Let_def)

lemma Classic_divcurl_body_frame:
  "length (Classic_divcurl_body E X a ps) = length ps
   \<and> (i \<noteq> a \<longrightarrow> Classic_divcurl_body E X a ps ! i = ps ! i)"
  by (simp add: Classic_divcurl_body_def Let_def fold_length fold_nth Classic_divcurl_pair_frame)

lemma Classic_force_pair_frame:
  "length (Classic_force_pair E X a b ps) = length ps
   \<and> (i \<noteq> a \<longrightarrow> Classic_force_pair E X a b ps ! i = ps ! i)"
  by (simp add: Classic_force_pair_def Let_def)

lemma Classic_force_sum_frame:
  "length (Classic_force_sum E X a ps) = length ps
   \<and> (i \<noteq> a \<longrightarrow> Classic_force_sum E X a ps ! i = ps ! i)"
  by (simp add: Classic_force_sum_def Let_def fold_length fold_nth Classic_force_pair_frame)

lemma Classic_forces_body_frame:
  "length (Classic_forces_body E X a ps) = length ps
   \<and> (i \<noteq> a \<longrightarrow> Classic_forces_body E X a ps ! i = ps ! i)"
  by (simp add: Classic_forces_body_def Let_def Classic_force_sum_frame)


lemma GradH_zeta_frame:
  "length (snd (GradH_zeta G X a ps)) = length ps
   \<and> (i \<noteq> a \<longrightarrow> snd (GradH_zeta G X a ps) ! i = ps ! i)"
  by (simp add: GradH_zeta_def Let_def fold_length fold_nth)

lemma newton_raphson_invariant:
  assumes f: "\<And>s. I s \<Longrightarrow> I (snd (f s))"
    and u: "\<And>g s. I s \<Longrightarrow> I (upd_x g s)"
    and "I s"
  shows "I (snd (newton_raphson sn upd_x f tol n s))"
  using assms(3)
proof (induction n arbitrary: s)
  case 0
  then show ?case by simp
next
  case (Suc n)
  obtain y d s1 where fs: "f s = ((y, d), s1)" by (metis prod.collapse)
  with f [OF Suc.prems] have s1: "I s1" by simp
  show ?case
    using fs s1 Suc.IH [OF u [OF s1]] by simp
qed

lemma GradH_width_solve_frame:
  "length (snd (GradH_width_solve G X a ps)) = length ps
   \<and> (i \<noteq> a \<longrightarrow> snd (GradH_width_solve G X a ps) ! i = ps ! i)"
  unfolding GradH_width_solve_def
  by (rule newton_raphson_invariant
        [where I = "\<lambda>s. length s = length ps \<and> (i \<noteq> a \<longrightarrow> s ! i = ps ! i)"])
     (simp_all add: GradH_zeta_frame)

lemma GradH_density_body_frame:
  "length (GradH_density_body G X a ps) = length ps
   \<and> (i \<noteq> a \<longrightarrow> GradH_density_body G X a ps ! i = ps ! i)"
  by (simp add: GradH_density_body_def Let_def GradH_width_solve_frame)

lemma GradH_divcurl_pair_frame:
  "length (GradH_divcurl_pair G X a b ps) = length ps
   \<and> (i \<noteq> a \<longrightarrow> GradH_divcurl_pair G X a b ps ! i = ps ! i)"
  by (simp add: GradH_divcurl_pair_def Let_def)

lemma GradH_divcurl_body_frame:
  "length (GradH_divcurl_body G X a ps) = length ps
   \<and> (i \<noteq> a \<longrightarrow> GradH_divcurl_body G X a ps ! i = ps ! i)"
  by (simp add: GradH_divcurl_body_def Let_def fold_length fold_nth GradH_divcurl_pair_frame)

lemma GradH_force_pair_frame:
  "length (GradH_force_pair G X a b ps) = length ps
   \<and> (i \<noteq> a \<longrightarrow> GradH_force_pair G X a b ps ! i = ps ! i)"
  by (simp add: GradH_force_pair_def Let_def)

lemma GradH_force_sum_frame:
  "length (GradH_force_sum G X a ps) = length ps
   \<and> (i \<noteq> a \<longrightarrow> GradH_force_sum G X a ps ! i = ps ! i)"
  by (simp add: GradH_force_sum_def Let_def fold_length fold_nth GradH_force_pair_frame)

lemma GradH_forces_body_frame:
  "length (GradH_forces_body G X a ps) = length ps
   \<and> (i \<noteq> a \<longrightarrow> GradH_forces_body G X a ps ! i = ps ! i)"
  by (simp add: GradH_forces_body_def Let_def GradH_force_sum_frame)

text \<open>The loop over all particles.\<close>

lemma fold_other:
  assumes "\<And>i ps. i \<noteq> a \<Longrightarrow> body i ps ! a = ps ! a"
    and "a \<notin> set xs"
  shows "fold body xs ps ! a = ps ! a"
  using assms(2) by (induction xs arbitrary: ps) (simp_all add: assms(1))

lemma for_each_length:
  assumes "\<And>i ps. length (body i ps) = length ps"
  shows "length (for_each body ps) = length ps"
  unfolding for_each_def by (rule fold_length) (rule assms)

lemma for_each_nth:
  assumes fr: "\<And>i ps. i \<noteq> a \<Longrightarrow> body i ps ! a = ps ! a"
    and "a < length ps"
  shows "for_each body ps ! a = body a (fold body [0..<a] ps) ! a"
proof -
  have "[0..<length ps] = [0..<a] @ a # [Suc a..<length ps]"
    using assms(2) by (metis less_imp_add_positive upt_add_eq_append upt_conv_Cons zero_le add_0)
  then have "for_each body ps = fold body [Suc a..<length ps] (body a (fold body [0..<a] ps))"
    by (simp add: for_each_def)
  also have "\<dots> ! a = body a (fold body [0..<a] ps) ! a"
    by (rule fold_other) (simp_all add: fr)
  finally show ?thesis .
qed

lemma fold_before:
  assumes fr: "\<And>i ps. i \<noteq> a \<Longrightarrow> body i ps ! a = ps ! a"
  shows "fold body [0..<a] ps ! a = ps ! a"
  by (rule fold_other) (simp_all add: fr)

lemma for_each_fixed:
  assumes fr: "\<And>i ps. i \<noteq> a \<Longrightarrow> body i ps ! a = ps ! a"
    and fx: "\<And>ps. fixed (ps ! a) \<Longrightarrow> body a ps = ps"
    and "fixed (ps ! a)"
  shows "for_each body ps ! a = ps ! a"
  unfolding for_each_def
proof (rule fold_invariant [where I = "\<lambda>s. s ! a = ps ! a"])
  fix i s assume "s ! a = ps ! a"
  then show "body i s ! a = ps ! a"
    using fr [of i s] fx [of s] assms(3) by (cases "i = a") simp_all
qed simp

section \<open>Concrete runs\<close>

lemmas ex_defs = plain_eos_def no_viscosity_def plain_env_def classic_cubic_def gradh_cubic_def
  particle_at_def CubicSmoothingKernel_def Cubic_weight_def Cubic_unit_value_def
  Cubic_unit_deriv_def

lemmas op_defs = upd_def r_ab_def v_ab_def vec_add_def vec_sub_def vec_scale_def vec_div_def
  vec_zero_def vec_neg_def dot_def norm_vec_def avg_def radius_def kernel_value_def grad_def
  radius_deriv_def safe_divide_def is_small_def pow2_def pow3_def for_each_def

lemma cubic_value_origin:
  "0 < w \<Longrightarrow> kernel_value CubicSmoothingKernel [0] w = 2 / (3 * w)"
  by (simp add: kernel_value_def Let_def norm_vec_def dot_def CubicSmoothingKernel_def
      Cubic_weight_def Cubic_unit_value_def pow3_def inverse_eq_divide)

lemma cubic_radius_deriv_origin:
  "0 < w \<Longrightarrow> radius_deriv CubicSmoothingKernel [0] w = - (2 / (3 * w * w))"
  by (simp add: radius_deriv_def Let_def norm_vec_def dot_def CubicSmoothingKernel_def
      Cubic_weight_def Cubic_unit_value_def Cubic_unit_deriv_def pow3_def pow2_def
      inverse_eq_divide power2_eq_square)

lemma nearby_lone:
  "0 < w \<Longrightarrow> nearby plain_env (lone_particle w x y) 0 (radius CubicSmoothingKernel w) = [0]"
  by (simp add: plain_env_def lone_particle_def particle_at_def r_ab_def vec_sub_def
      norm_vec_def dot_def radius_def CubicSmoothingKernel_def)

lemma r_ab_lone: "r_ab (lone_particle w x y) 0 0 = [0]"
  by (simp add: lone_particle_def particle_at_def r_ab_def vec_sub_def)

lemma lone_fields:
  "h (lone_particle w x y ! 0) = w" "rho (lone_particle w x y ! 0) = x"
  "Omega (lone_particle w x y ! 0) = y" "m (lone_particle w x y ! 0) = 1"
  "r (lone_particle w x y ! 0) = [0]" "\<not> fixed (lone_particle w x y ! 0)"
  by (simp_all add: lone_particle_def particle_at_def)

lemma upd_lone:
  "upd 0 (\<lambda>q. q\<lparr>rho := f q\<rparr>) (lone_particle w x y) = lone_particle w (f (lone_particle w x y ! 0)) y"
  "upd 0 (\<lambda>q. q\<lparr>Omega := f q\<rparr>) (lone_particle w x y) = lone_particle w x (f (lone_particle w x y ! 0))"
  "upd 0 (\<lambda>q. q\<lparr>h := f q\<rparr>) (lone_particle w x y) = lone_particle (f (lone_particle w x y ! 0)) x y"
  by (simp_all add: lone_particle_def particle_at_def upd_def)

lemma zeta_lone:
  assumes "0 < w"
  shows "GradH_zeta gradh_cubic plain_env 0 (lone_particle w x y)
   = ((1 / (3 * w), - (1 / (3 * w * w))), lone_particle w (2 / (3 * w)) (1 / 3))"
proof -
  have g: "smooth_kernel gradh_cubic = CubicSmoothingKernel" "coupling gradh_cubic = 1"
    by (simp_all add: gradh_cubic_def)
  show ?thesis
    using assms
    by (simp add: GradH_zeta_def Let_def g upd_lone lone_fields nearby_lone r_ab_lone
        cubic_value_origin cubic_radius_deriv_origin)
qed


lemma lone_step:
  assumes "0 < w" "sn < 1 / (3 * w)" "sn < 1 / (3 * w * w)"
  shows "newton_raphson sn (\<lambda>g. upd 0 (\<lambda>q. q\<lparr>h := g (h q)\<rparr>))
       (GradH_zeta gradh_cubic plain_env 0) sn (Suc n) (lone_particle w x y)
     = newton_raphson sn (\<lambda>g. upd 0 (\<lambda>q. q\<lparr>h := g (h q)\<rparr>))
       (GradH_zeta gradh_cubic plain_env 0) sn n
       (lone_particle (2 * w) (2 / (3 * w)) (1 / 3))"
proof -
  have ar: "w - 1 / (3 * w) / - (1 / (3 * w * w)) = 2 * w"
    using assms(1) by (simp add: field_simps)
  have c1: "\<not> \<bar>1 / (3 * w)\<bar> \<le> sn" using assms(1,2) by simp
  have c2: "\<not> is_small sn (- (1 / (3 * w * w)))"
    using assms(1,3) by (simp add: is_small_def)
  have u: "upd 0 (\<lambda>q. q\<lparr>h := h q - 1 / (3 * w) / - (1 / (3 * w * w))\<rparr>)
             (lone_particle w (2 / (3 * w)) (1 / 3))
           = lone_particle (2 * w) (2 / (3 * w)) (1 / 3)"
    unfolding upd_lone(3) lone_fields ar ..
  show ?thesis
    unfolding newton_raphson.simps(2) zeta_lone [OF assms(1)] prod.case
    using c1 c2 u by (simp only: if_False)
qed

lemma lone_particle_width_solve:
  "GradH_width_solve gradh_cubic plain_env 0 (lone_particle 1 1 1)
   = (NewtonRaphsonStatus.fail_max_iter, lone_particle 1024 (1 / 768) (1 / 3))"
proof -
  have sn: "small_number_v plain_env = 1 / 2 ^ 52" by (simp add: plain_env_def)
  have ten: "(10::nat) = Suc (Suc (Suc (Suc (Suc (Suc (Suc (Suc (Suc (Suc 0)))))))))"
    by simp
  show ?thesis
    unfolding GradH_width_solve_def sn ten
    by (simp add: lone_step del: newton_raphson.simps(2))
qed

lemma two_fields:
  "length two_particles = 2"
  "r_ab two_particles 0 (Suc 0) = [- 1, 0]" "r_ab two_particles (Suc 0) 0 = [1, 0]"
  "h (two_particles ! 0) = 1" "h (two_particles ! Suc 0) = 2"
  "p (two_particles ! 0) = 1" "p (two_particles ! Suc 0) = 3"
  "m (two_particles ! Suc 0) = 1" "rho (two_particles ! 0) = 1" "rho (two_particles ! Suc 0) = 1"
  "Omega (two_particles ! 0) = 1" "Omega (two_particles ! Suc 0) = 1"
  "dv_dt (two_particles ! 0) = [0, 0]"
  by (simp_all add: two_particles_def particle_at_def r_ab_def vec_sub_def vec_zero_def)

lemma two_grads:
  "grad CubicSmoothingKernel (1 / 4503599627370496) [- 1, 0] 1 = [15 / (14 * pi), 0]"
  "grad CubicSmoothingKernel (1 / 4503599627370496) [- 1, 0] 2 = [75 / (448 * pi), 0]"
  by (simp_all add: grad_def Let_def norm_vec_def dot_def vec_scale_def safe_divide_def
      is_small_def CubicSmoothingKernel_def Cubic_weight_def Cubic_unit_deriv_def pow2_def
      power4_eq_xxxx)

lemma two_grads_back:
  "grad CubicSmoothingKernel (1 / 4503599627370496) [1, 0] 1 = [- (15 / (14 * pi)), 0]"
  "grad CubicSmoothingKernel (1 / 4503599627370496) [1, 0] 2 = [- (75 / (448 * pi)), 0]"
  by (simp_all add: grad_def Let_def norm_vec_def dot_def vec_scale_def safe_divide_def
      is_small_def CubicSmoothingKernel_def Cubic_weight_def Cubic_unit_deriv_def pow2_def
      power4_eq_xxxx)

section \<open>Fixed particles\<close>

lemma other_than_div_curl_simps [simp]:
  "other_than_div_curl (q\<lparr>div_v := x\<rparr>) = other_than_div_curl q"
  "other_than_div_curl (q\<lparr>curl_v := y\<rparr>) = other_than_div_curl q"
  by (simp_all add: other_than_div_curl_def)

lemma upd_div_curl [simp]:
  "other_than_div_curl (upd a (\<lambda>q. q\<lparr>div_v := f q\<rparr>) ps ! i) = other_than_div_curl (ps ! i)"
  "other_than_div_curl (upd a (\<lambda>q. q\<lparr>curl_v := g q\<rparr>) ps ! i) = other_than_div_curl (ps ! i)"
  by (rule upd_proj, simp)+

lemma Classic_divcurl_pair_others:
  "other_than_div_curl (Classic_divcurl_pair E X a b ps ! i) = other_than_div_curl (ps ! i)"
  by (simp add: Classic_divcurl_pair_def Let_def)

lemma GradH_divcurl_pair_others:
  "other_than_div_curl (GradH_divcurl_pair G X a b ps ! i) = other_than_div_curl (ps ! i)"
  by (simp add: GradH_divcurl_pair_def Let_def)

lemma fold_others:
  assumes "\<And>b ps. other_than_div_curl (F b ps ! i) = other_than_div_curl (ps ! i)"
  shows "other_than_div_curl (fold F bs ps ! i) = other_than_div_curl (ps ! i)"
  by (rule fold_invariant
        [where I = "\<lambda>s. other_than_div_curl (s ! i) = other_than_div_curl (ps ! i)"])
     (simp_all add: assms)

lemma Classic_divcurl_body_others:
  "other_than_div_curl (Classic_divcurl_body E X a ps ! i) = other_than_div_curl (ps ! i)"
  by (simp add: Classic_divcurl_body_def Let_def fold_others Classic_divcurl_pair_others)

lemma GradH_divcurl_body_others:
  "other_than_div_curl (GradH_divcurl_body G X a ps ! i) = other_than_div_curl (ps ! i)"
  by (simp add: GradH_divcurl_body_def Let_def fold_others GradH_divcurl_pair_others)

lemma Classic_divcurl_body_absent:
  "\<not> has_div_v X \<Longrightarrow> \<not> has_curl_v X \<Longrightarrow> Classic_divcurl_body E X a ps = ps"
proof -
  assume n: "\<not> has_div_v X" "\<not> has_curl_v X"
  have "\<And>bs ps. fold (Classic_divcurl_pair E X a) bs ps = ps"
    by (rule fold_invariant [where I = "\<lambda>s. s = _"])
       (simp_all add: Classic_divcurl_pair_def Let_def n)
  then show ?thesis by (simp add: Classic_divcurl_body_def Let_def n)
qed

lemma GradH_divcurl_body_absent:
  "\<not> has_div_v X \<Longrightarrow> \<not> has_curl_v X \<Longrightarrow> GradH_divcurl_body G X a ps = ps"
proof -
  assume n: "\<not> has_div_v X" "\<not> has_curl_v X"
  have "\<And>bs ps. fold (GradH_divcurl_pair G X a) bs ps = ps"
    by (rule fold_invariant [where I = "\<lambda>s. s = _"])
       (simp_all add: GradH_divcurl_pair_def Let_def n)
  then show ?thesis by (simp add: GradH_divcurl_body_def Let_def n)
qed

lemma for_each_id: "(\<And>i ps. body i ps = ps) \<Longrightarrow> for_each body ps = ps"
  unfolding for_each_def by (rule fold_invariant [where I = "\<lambda>s. s = ps"]) simp_all

lemma for_each_others:
  assumes "\<And>i ps. other_than_div_curl (body i ps ! a) = other_than_div_curl (ps ! a)"
  shows "other_than_div_curl (for_each body ps ! a) = other_than_div_curl (ps ! a)"
  unfolding for_each_def by (rule fold_others) (rule assms)

text \<open>
  Claim C2, as stated: every pass of \<^verbatim>\<open>estimate_density\<close> and \<^verbatim>\<open>estimate_forces\<close>
  leaves all fields of a fixed particle unchanged, and in particular the divergence and curl
  pass does not overwrite \<^verbatim>\<open>div_v\<close> or \<^verbatim>\<open>curl_v\<close> of a fixed particle. The second loop
  of \<^verbatim>\<open>estimate_density\<close> has no test of \<^verbatim>\<open>fixed[a]\<close>, in either estimator: it clears
  and recomputes \<^verbatim>\<open>div_v\<close> of every particle. A fixed particle alone in the plane with
  \<^verbatim>\<open>div_v\<close> \<open>= 5\<close> leaves \<^verbatim>\<open>estimate_density\<close> with \<^verbatim>\<open>div_v\<close> \<open>= 0\<close>.
\<close>

theorem fixed_particle_div_v_counterexample:
  "fixed ([particle_at True [0, 0] 5] ! 0)
   \<and> div_v ([particle_at True [0, 0] 5] ! 0) = 5
   \<and> div_v (Classic_estimate_density classic_cubic plain_env [particle_at True [0, 0] 5] ! 0) = 0
   \<and> div_v (GradH_estimate_density gradh_cubic plain_env [particle_at True [0, 0] 5] ! 0) = 0"
  by (simp add: Classic_estimate_density_def Classic_density_body_def Classic_divcurl_body_def
      Classic_divcurl_pair_def GradH_estimate_density_def GradH_density_body_def
      GradH_divcurl_body_def GradH_divcurl_pair_def Let_def ex_defs op_defs)

text \<open>
  Claim C2, amended: for a fixed particle, the first loop of \<^verbatim>\<open>estimate_density\<close> (width,
  density, pressure, sound speed) and the whole of \<^verbatim>\<open>estimate_forces\<close> leave every field
  unchanged, in both estimators. The second loop of \<^verbatim>\<open>estimate_density\<close> recomputes
  \<^verbatim>\<open>div_v\<close> and \<^verbatim>\<open>curl_v\<close> of every particle, fixed or not, and changes no other field;
  a cloud that declares neither field is left as it is.
\<close>

theorem fixed_particle_passes:
  assumes "a < length ps" and "fixed (ps ! a)"
  shows "for_each (Classic_density_body E X) ps ! a = ps ! a
       \<and> other_than_div_curl (Classic_estimate_density E X ps ! a) = other_than_div_curl (ps ! a)
       \<and> Classic_estimate_forces E X ps ! a = ps ! a
       \<and> for_each (GradH_density_body G X) ps ! a = ps ! a
       \<and> other_than_div_curl (GradH_estimate_density G X ps ! a) = other_than_div_curl (ps ! a)
       \<and> GradH_estimate_forces G X ps ! a = ps ! a
       \<and> (\<not> has_div_v X \<and> \<not> has_curl_v X \<longrightarrow>
            Classic_estimate_density E X ps ! a = ps ! a
          \<and> GradH_estimate_density G X ps ! a = ps ! a)"
proof -
  have c1: "for_each (Classic_density_body E X) ps ! a = ps ! a"
    by (rule for_each_fixed)
       (simp_all add: Classic_density_body_frame assms(2), simp add: Classic_density_body_def)
  have g1: "for_each (GradH_density_body G X) ps ! a = ps ! a"
    by (rule for_each_fixed)
       (simp_all add: GradH_density_body_frame assms(2), simp add: GradH_density_body_def)
  have c3: "Classic_estimate_forces E X ps ! a = ps ! a"
    unfolding Classic_estimate_forces_def
    by (rule for_each_fixed)
       (simp_all add: Classic_forces_body_frame assms(2), simp add: Classic_forces_body_def)
  have g3: "GradH_estimate_forces G X ps ! a = ps ! a"
    unfolding GradH_estimate_forces_def
    by (rule for_each_fixed)
       (simp_all add: GradH_forces_body_frame assms(2), simp add: GradH_forces_body_def)
  have c2: "other_than_div_curl (Classic_estimate_density E X ps ! a) = other_than_div_curl (ps ! a)"
    unfolding Classic_estimate_density_def Let_def
    using for_each_others [of "Classic_divcurl_body E X" a, OF Classic_divcurl_body_others] c1
    by simp
  have g2: "other_than_div_curl (GradH_estimate_density G X ps ! a) = other_than_div_curl (ps ! a)"
    unfolding GradH_estimate_density_def Let_def
    using for_each_others [of "GradH_divcurl_body G X" a, OF GradH_divcurl_body_others] g1
    by simp
  have c4: "Classic_estimate_density E X ps ! a = ps ! a" if "\<not> has_div_v X" "\<not> has_curl_v X"
    unfolding Classic_estimate_density_def Let_def
    using for_each_id [of "Classic_divcurl_body E X", OF Classic_divcurl_body_absent [OF that]] c1
    by simp
  have g4: "GradH_estimate_density G X ps ! a = ps ! a" if "\<not> has_div_v X" "\<not> has_curl_v X"
    unfolding GradH_estimate_density_def Let_def
    using for_each_id [of "GradH_divcurl_body G X", OF GradH_divcurl_body_absent [OF that]] g1
    by simp
  from c1 c2 c3 g1 g2 g3 c4 g4 show ?thesis by blast
qed

theorem fixed_particle_passes_witness:
  "0 < length [particle_at True [0, 0] 5] \<and> fixed ([particle_at True [0, 0] 5] ! 0)
   \<and> for_each (Classic_density_body classic_cubic plain_env) [particle_at True [0, 0] 5] ! 0
       = particle_at True [0, 0] 5
   \<and> other_than_div_curl (Classic_estimate_density classic_cubic plain_env [particle_at True [0, 0] 5] ! 0)
       = other_than_div_curl (particle_at True [0, 0] 5)
   \<and> Classic_estimate_forces classic_cubic plain_env [particle_at True [0, 0] 5] ! 0
       = particle_at True [0, 0] 5
   \<and> for_each (GradH_density_body gradh_cubic plain_env) [particle_at True [0, 0] 5] ! 0
       = particle_at True [0, 0] 5
   \<and> other_than_div_curl (GradH_estimate_density gradh_cubic plain_env [particle_at True [0, 0] 5] ! 0)
       = other_than_div_curl (particle_at True [0, 0] 5)
   \<and> GradH_estimate_forces gradh_cubic plain_env [particle_at True [0, 0] 5] ! 0
       = particle_at True [0, 0] 5"
proof -
  have a: "0 < length [particle_at True [0, 0] 5]" by simp
  have b: "fixed ([particle_at True [0, 0] 5] ! 0)" by (simp add: particle_at_def)
  from fixed_particle_passes [OF a b, of classic_cubic plain_env gradh_cubic] a b
  show ?thesis by simp
qed

section \<open>The width solve of the Grad-H estimator\<close>

text \<open>
  Claim C1, as stated: when the width solve of a particle ends in \<open>fail_max_iter\<close> or
  \<open>fail_zero_deriv\<close>, \<^verbatim>\<open>GradHSmoothEstimator::estimate_density\<close> reports an error for
  that particle and does not go on as if the solve had converged. The function returns
  nothing and drops the status. One free particle alone on the line, with unit mass, width
  and coupling: the residual is \<open>1/(3h)\<close>, every iteration doubles \<open>h\<close>, and the solve
  ends in \<open>fail_max_iter\<close> with \<open>h = 1024\<close>; the pass then sets the pressure and the sound
  speed from the density of the last iteration and returns the cloud.
\<close>

theorem GradH_density_failure_counterexample:
  "\<not> fixed (lone_particle 1 1 1 ! 0)
   \<and> GradH_width_solve gradh_cubic plain_env 0 (lone_particle 1 1 1)
       = (NewtonRaphsonStatus.fail_max_iter, lone_particle 1024 (1 / 768) (1 / 3))
   \<and> GradH_estimate_density gradh_cubic plain_env (lone_particle 1 1 1)
       = [(particle_at False [0] 0)
            \<lparr>h := 1024, rho := 1 / 768, Omega := 1 / 3, p := 1 / 768, cs := 1\<rparr>]"
proof -
  have len: "length (lone_particle 1 1 1) = 1" by (simp add: lone_particle_def)
  have body: "GradH_density_body gradh_cubic plain_env 0 (lone_particle 1 1 1)
      = [(particle_at False [0] 0)
            \<lparr>h := 1024, rho := 1 / 768, Omega := 1 / 3, p := 1 / 768, cs := 1\<rparr>]"
    by (simp add: GradH_density_body_def lone_fields lone_particle_width_solve Let_def)
       (simp add: lone_particle_def particle_at_def upd_def gradh_cubic_def plain_eos_def)
  have dc: "GradH_divcurl_body gradh_cubic plain_env 0
        [(particle_at False [0] 0)
            \<lparr>h := 1024, rho := 1 / 768, Omega := 1 / 3, p := 1 / 768, cs := 1\<rparr>]
      = [(particle_at False [0] 0)
            \<lparr>h := 1024, rho := 1 / 768, Omega := 1 / 3, p := 1 / 768, cs := 1\<rparr>]"
    by (simp add: GradH_divcurl_body_def GradH_divcurl_pair_def Let_def ex_defs op_defs)
  show ?thesis
    by (simp add: GradH_estimate_density_def for_each_def len body dc lone_particle_width_solve lone_fields)
qed

text \<open>
  Claim C1, amended: \<^verbatim>\<open>estimate_density\<close> does not surface the status of the width
  solve. For every free particle, whatever the status (\<open>success\<close>, \<open>fail_max_iter\<close> or
  \<open>fail_zero_deriv\<close>), the particle leaves the pass with the width, density and correction
  factor the solver left, and with the pressure and sound speed the equation of state gives
  for them. (The state the solver starts from is the cloud after the bodies of the particles
  before \<open>a\<close>.)
\<close>

theorem GradH_density_ignores_status:
  assumes "a < length ps" and "\<not> fixed (ps ! a)"
    and "GradH_width_solve G X a (fold (GradH_density_body G X) [0..<a] ps) = (st, ps')"
  shows "other_than_div_curl (GradH_estimate_density G X ps ! a) =
         other_than_div_curl ((ps' ! a)
           \<lparr>p := pressure (eos G) ps' a,
            cs := sound_speed (eos G) (upd a (\<lambda>q. q\<lparr>p := pressure (eos G) ps' a\<rparr>) ps') a\<rparr>)"
proof -
  let ?before = "fold (GradH_density_body G X) [0..<a] ps"
  have fr: "\<And>i ps. i \<noteq> a \<Longrightarrow> GradH_density_body G X i ps ! a = ps ! a"
    using GradH_density_body_frame by simp
  have same: "?before ! a = ps ! a" by (rule fold_before) (rule fr)
  have len: "length ?before = length ps"
    by (rule fold_length) (simp add: GradH_density_body_frame)
  have len': "length ps' = length ps"
    using GradH_width_solve_frame [of G X a ?before] assms(3) len by simp
  have "for_each (GradH_density_body G X) ps ! a = GradH_density_body G X a ?before ! a"
    by (rule for_each_nth) (simp_all add: fr assms(1))
  also have "\<dots> = (ps' ! a)
           \<lparr>p := pressure (eos G) ps' a,
            cs := sound_speed (eos G) (upd a (\<lambda>q. q\<lparr>p := pressure (eos G) ps' a\<rparr>) ps') a\<rparr>"
    using assms(1,2) same len'
    by (simp add: GradH_density_body_def Let_def assms(3) nth_upd_same)
  finally have pass1: "for_each (GradH_density_body G X) ps ! a = (ps' ! a)
           \<lparr>p := pressure (eos G) ps' a,
            cs := sound_speed (eos G) (upd a (\<lambda>q. q\<lparr>p := pressure (eos G) ps' a\<rparr>) ps') a\<rparr>" .
  show ?thesis
    unfolding GradH_estimate_density_def Let_def
    using for_each_others [of "GradH_divcurl_body G X" a, OF GradH_divcurl_body_others] pass1
    by simp
qed

theorem GradH_density_ignores_status_witness:
  "0 < length (lone_particle 1 1 1) \<and> \<not> fixed (lone_particle 1 1 1 ! 0)
   \<and> GradH_width_solve gradh_cubic plain_env 0
         (fold (GradH_density_body gradh_cubic plain_env) [0..<0] (lone_particle 1 1 1))
       = (NewtonRaphsonStatus.fail_max_iter, lone_particle 1024 (1 / 768) (1 / 3))
   \<and> other_than_div_curl (GradH_estimate_density gradh_cubic plain_env (lone_particle 1 1 1) ! 0)
       = other_than_div_curl ((particle_at False [0] 0)
            \<lparr>h := 1024, rho := 1 / 768, Omega := 1 / 3, p := 1 / 768, cs := 1\<rparr>)"
proof -
  have a: "0 < length (lone_particle 1 1 1)" by (simp add: lone_particle_def)
  have b: "\<not> fixed (lone_particle 1 1 1 ! 0)" by (simp add: lone_fields)
  have c: "GradH_width_solve gradh_cubic plain_env 0
         (fold (GradH_density_body gradh_cubic plain_env) [0..<0] (lone_particle 1 1 1))
       = (NewtonRaphsonStatus.fail_max_iter, lone_particle 1024 (1 / 768) (1 / 3))"
    by (simp add: lone_particle_width_solve)
  from GradH_density_ignores_status [OF a b c] a b c show ?thesis
    by (simp add: lone_particle_def particle_at_def upd_def gradh_cubic_def plain_eos_def)
qed

section \<open>The gradients of the Grad-H force loop\<close>

lemma map2_minus_swap: "map2 (-) y x = map uminus (map2 (-) x (y::real list))"
proof (induction x arbitrary: y)
  case Nil
  then show ?case by simp
next
  case (Cons a x)
  then show ?case by (cases y) simp_all
qed

lemma map2_plus_neg:
  "map2 (+) (map uminus y) (map uminus x) = map uminus (map2 (+) x (y::real list))"
proof (induction x arbitrary: y)
  case Nil
  then show ?case by simp
next
  case (Cons a x)
  then show ?case by (cases y) simp_all
qed

lemma r_ab_swap: "r_ab ps b a = vec_neg (r_ab ps a b)"
  unfolding r_ab_def vec_sub_def vec_neg_def by (rule map2_minus_swap)

lemma avg_neg: "avg (vec_neg y) (vec_neg x) = vec_neg (avg x y)"
  by (simp add: avg_def vec_div_def vec_add_def vec_neg_def map2_plus_neg)

lemma GradH_grad_ab_swap: "GradH_grad_ab G X ps b a = vec_neg (GradH_grad_ab G X ps a b)"
proof -
  have 1: "GradH_grad_aba G X ps b a = vec_neg (GradH_grad_abb G X ps a b)"
    unfolding GradH_grad_aba_def GradH_grad_abb_def r_ab_swap [of ps b a] by (rule grad_neg)
  have 2: "GradH_grad_abb G X ps b a = vec_neg (GradH_grad_aba G X ps a b)"
    unfolding GradH_grad_aba_def GradH_grad_abb_def r_ab_swap [of ps b a] by (rule grad_neg)
  show ?thesis
    unfolding GradH_grad_ab_def 1 2 by (rule avg_neg)
qed

text \<open>
  Claim C4, as stated: the pairwise force term of the Grad-H estimator uses the averaged
  gradient \<^verbatim>\<open>grad_ab\<close>. Only its viscous part does: the two pressure parts are multiplied
  by the one-sided gradients \<^verbatim>\<open>grad_aba\<close> and \<^verbatim>\<open>grad_abb\<close>. For two particles with
  widths 1 and 2 and pressures 1 and 3, the term the code subtracts differs from
  \<open>m\<^sub>b (P\<^sub>a + P\<^sub>b + \<Pi>\<^sub>a\<^sub>b) grad_ab\<close>.
\<close>

theorem GradH_force_pair_not_all_averaged_counterexample:
  "dv_dt (GradH_force_pair gradh_cubic plain_env 0 1 two_particles ! 0)
     = [- (705 / (448 * pi)), 0]
   \<and> vec_sub (dv_dt (two_particles ! 0))
       (vec_scale (m (two_particles ! 1) *
            (p (two_particles ! 0) / (Omega (two_particles ! 0) * pow2 (rho (two_particles ! 0)))
           + p (two_particles ! 1) / (Omega (two_particles ! 1) * pow2 (rho (two_particles ! 1)))
           + kinematic (viscosity gradh_cubic) two_particles 0 1))
          (GradH_grad_ab gradh_cubic plain_env two_particles 0 1))
     = [- (555 / (224 * pi)), 0]
   \<and> dv_dt (GradH_force_pair gradh_cubic plain_env 0 1 two_particles ! 0)
     \<noteq> vec_sub (dv_dt (two_particles ! 0))
       (vec_scale (m (two_particles ! 1) *
            (p (two_particles ! 0) / (Omega (two_particles ! 0) * pow2 (rho (two_particles ! 0)))
           + p (two_particles ! 1) / (Omega (two_particles ! 1) * pow2 (rho (two_particles ! 1)))
           + kinematic (viscosity gradh_cubic) two_particles 0 1))
          (GradH_grad_ab gradh_cubic plain_env two_particles 0 1))"
proof -
  have g: "smooth_kernel gradh_cubic = CubicSmoothingKernel"
    "kinematic (viscosity gradh_cubic) = (\<lambda>ps a b. 0)"
    "small_number_v plain_env = 1 / 2 ^ 52" "\<not> (has_eps plain_env \<and> has_deps_dt plain_env)"
    by (simp_all add: gradh_cubic_def plain_env_def no_viscosity_def)
  have 1: "dv_dt (GradH_force_pair gradh_cubic plain_env 0 1 two_particles ! 0)
     = [- (705 / (448 * pi)), 0]"
    by (simp add: GradH_force_pair_def Let_def nth_upd_same GradH_grad_ab_def
        GradH_grad_aba_def GradH_grad_abb_def g two_fields two_grads
        vec_sub_def vec_scale_def vec_add_def vec_div_def avg_def pow2_def field_simps)
  have 2: "vec_sub (dv_dt (two_particles ! 0))
       (vec_scale (m (two_particles ! 1) *
            (p (two_particles ! 0) / (Omega (two_particles ! 0) * pow2 (rho (two_particles ! 0)))
           + p (two_particles ! 1) / (Omega (two_particles ! 1) * pow2 (rho (two_particles ! 1)))
           + kinematic (viscosity gradh_cubic) two_particles 0 1))
          (GradH_grad_ab gradh_cubic plain_env two_particles 0 1))
     = [- (555 / (224 * pi)), 0]"
    by (simp add: GradH_grad_ab_def GradH_grad_aba_def GradH_grad_abb_def g two_fields two_grads
        vec_sub_def vec_scale_def vec_add_def vec_div_def avg_def pow2_def field_simps)
  have 3: "[- (705 / (448 * pi)), 0] \<noteq> [- (555 / (224 * pi)), 0::real]"
    by (simp add: field_simps)
  show ?thesis unfolding 1 2 using 3 by simp
qed

text \<open>
  Claim C4, amended: for every neighbour \<open>b\<close> of a particle \<open>a\<close>, the force loop of the
  Grad-H estimator subtracts from \<^verbatim>\<open>dv_dt[a]\<close> the mass of \<open>b\<close> times the sum of the
  pressure part of \<open>a\<close> along the gradient at width \<open>h\<^sub>a\<close>, the pressure part of \<open>b\<close>
  along the gradient at width \<open>h\<^sub>b\<close>, and the viscous part \<open>\<Pi>\<^sub>a\<^sub>b\<close> along \<^verbatim>\<open>grad_ab\<close>,
  the average of the two gradients; and \<^verbatim>\<open>grad_ab\<close> changes sign exactly when \<open>a\<close> and
  \<open>b\<close> are exchanged.
\<close>

theorem GradH_force_pair_gradients:
  assumes "a < length ps"
  shows "dv_dt (GradH_force_pair G X a b ps ! a) =
           vec_sub (dv_dt (ps ! a)) (vec_scale (m (ps ! b))
             (vec_add
                (vec_add
                   (vec_scale (p (ps ! a) / (Omega (ps ! a) * pow2 (rho (ps ! a))))
                      (grad (smooth_kernel G) (small_number_v X) (r_ab ps a b) (h (ps ! a))))
                   (vec_scale (p (ps ! b) / (Omega (ps ! b) * pow2 (rho (ps ! b))))
                      (grad (smooth_kernel G) (small_number_v X) (r_ab ps a b) (h (ps ! b)))))
                (vec_scale (kinematic (viscosity G) ps a b) (GradH_grad_ab G X ps a b))))
       \<and> GradH_grad_ab G X ps a b =
           avg (grad (smooth_kernel G) (small_number_v X) (r_ab ps a b) (h (ps ! a)))
               (grad (smooth_kernel G) (small_number_v X) (r_ab ps a b) (h (ps ! b)))
       \<and> GradH_grad_ab G X ps a b = vec_neg (GradH_grad_ab G X ps b a)"
proof -
  have "GradH_grad_ab G X ps a b = vec_neg (GradH_grad_ab G X ps b a)"
    by (simp add: GradH_grad_ab_swap [of G X ps a b] vec_neg_neg)
  then show ?thesis
    using assms
    by (simp add: GradH_force_pair_def Let_def nth_upd_same GradH_grad_ab_def
        GradH_grad_aba_def GradH_grad_abb_def)
qed

theorem GradH_force_pair_gradients_witness:
  "0 < length two_particles
   \<and> dv_dt (GradH_force_pair gradh_cubic plain_env 0 1 two_particles ! 0)
       = [- (705 / (448 * pi)), 0]
   \<and> GradH_grad_ab gradh_cubic plain_env two_particles 0 1 = [555 / (896 * pi), 0]
   \<and> GradH_grad_ab gradh_cubic plain_env two_particles 1 0 = [- (555 / (896 * pi)), 0]"
proof -
  have a: "0 < length two_particles" by (simp add: two_fields)
  have g: "smooth_kernel gradh_cubic = CubicSmoothingKernel"
    "kinematic (viscosity gradh_cubic) = (\<lambda>ps a b. 0)"
    "small_number_v plain_env = 1 / 2 ^ 52" "\<not> (has_eps plain_env \<and> has_deps_dt plain_env)"
    by (simp_all add: gradh_cubic_def plain_env_def no_viscosity_def)
  have v1: "dv_dt (GradH_force_pair gradh_cubic plain_env 0 1 two_particles ! 0)
     = [- (705 / (448 * pi)), 0]"
    by (simp add: GradH_force_pair_def Let_def nth_upd_same GradH_grad_ab_def
        GradH_grad_aba_def GradH_grad_abb_def g two_fields two_grads
        vec_sub_def vec_scale_def vec_add_def vec_div_def avg_def pow2_def field_simps)
  have v2: "GradH_grad_ab gradh_cubic plain_env two_particles 0 1 = [555 / (896 * pi), 0]"
    by (simp add: GradH_grad_ab_def GradH_grad_aba_def GradH_grad_abb_def g two_fields two_grads
        vec_add_def vec_div_def avg_def field_simps)
  have v3: "GradH_grad_ab gradh_cubic plain_env two_particles 1 0 = [- (555 / (896 * pi)), 0]"
    by (simp add: GradH_grad_ab_def GradH_grad_aba_def GradH_grad_abb_def g two_fields
        two_grads_back vec_add_def vec_div_def avg_def field_simps)
  from GradH_force_pair_gradients [OF a, of gradh_cubic plain_env 1] a v1 v2 v3
  show ?thesis by simp
qed

section \<open>The body force of the Grad-H estimator\<close>

text \<open>
  Claim C7: for every free particle, \<^verbatim>\<open>GradHSmoothEstimator::estimate_forces\<close> leaves in
  \<^verbatim>\<open>dv_dt\<close> the sum of the pairwise terms with 9.81 subtracted from component 1, and
  \<^verbatim>\<open>ClassicSmoothEstimator::estimate_forces\<close> leaves the sum of the pairwise terms as it
  is. (The sum is taken in the cloud after the bodies of the particles before \<open>a\<close>; the
  acceleration has a component 1 when the dimension is at least 2.)
\<close>

theorem GradH_forces_gravity:
  assumes "a < length ps" and "\<not> fixed (ps ! a)"
    and "1 < length (dv_dt (GradH_force_sum G X a (fold (GradH_forces_body G X) [0..<a] ps) ! a))"
  shows "dv_dt (GradH_estimate_forces G X ps ! a) =
           (dv_dt (GradH_force_sum G X a (fold (GradH_forces_body G X) [0..<a] ps) ! a))
             [1 := dv_dt (GradH_force_sum G X a (fold (GradH_forces_body G X) [0..<a] ps) ! a) ! 1
                     - 981 / 100]
       \<and> dv_dt (GradH_estimate_forces G X ps ! a) ! 1 =
           dv_dt (GradH_force_sum G X a (fold (GradH_forces_body G X) [0..<a] ps) ! a) ! 1
             - 981 / 100
       \<and> dv_dt (Classic_estimate_forces E X ps ! a) =
           dv_dt (Classic_force_sum E X a (fold (Classic_forces_body E X) [0..<a] ps) ! a)"
proof -
  let ?gb = "fold (GradH_forces_body G X) [0..<a] ps"
  let ?cb = "fold (Classic_forces_body E X) [0..<a] ps"
  have gfr: "\<And>i ps. i \<noteq> a \<Longrightarrow> GradH_forces_body G X i ps ! a = ps ! a"
    using GradH_forces_body_frame by simp
  have cfr: "\<And>i ps. i \<noteq> a \<Longrightarrow> Classic_forces_body E X i ps ! a = ps ! a"
    using Classic_forces_body_frame by simp
  have gsame: "?gb ! a = ps ! a" by (rule fold_before) (rule gfr)
  have csame: "?cb ! a = ps ! a" by (rule fold_before) (rule cfr)
  have glen: "length ?gb = length ps"
    by (rule fold_length) (simp add: GradH_forces_body_frame)
  have clen: "length ?cb = length ps"
    by (rule fold_length) (simp add: Classic_forces_body_frame)
  have gs: "a < length (GradH_force_sum G X a ?gb)"
    using GradH_force_sum_frame [of G X a ?gb] glen assms(1) by simp
  have cs: "a < length (Classic_force_sum E X a ?cb)"
    using Classic_force_sum_frame [of E X a ?cb] clen assms(1) by simp
  have "GradH_estimate_forces G X ps ! a = GradH_forces_body G X a ?gb ! a"
    unfolding GradH_estimate_forces_def by (rule for_each_nth) (simp_all add: gfr assms(1))
  then have g: "dv_dt (GradH_estimate_forces G X ps ! a) =
           (dv_dt (GradH_force_sum G X a ?gb ! a))
             [1 := dv_dt (GradH_force_sum G X a ?gb ! a) ! 1 - 981 / 100]"
    using assms(2) gsame gs
    by (simp add: GradH_forces_body_def Let_def nth_upd_same)
  have "Classic_estimate_forces E X ps ! a = Classic_forces_body E X a ?cb ! a"
    unfolding Classic_estimate_forces_def by (rule for_each_nth) (simp_all add: cfr assms(1))
  then have c: "dv_dt (Classic_estimate_forces E X ps ! a) =
           dv_dt (Classic_force_sum E X a ?cb ! a)"
    using assms(2) csame cs
    by (simp add: Classic_forces_body_def Let_def nth_upd_same)
  from g c assms(3) show ?thesis by simp
qed

theorem GradH_forces_gravity_witness:
  "0 < length [particle_at False [0, 0] 0] \<and> \<not> fixed ([particle_at False [0, 0] 0] ! 0)
   \<and> dv_dt (GradH_force_sum gradh_cubic plain_env 0
        (fold (GradH_forces_body gradh_cubic plain_env) [0..<0] [particle_at False [0, 0] 0]) ! 0)
       = [0, 0]
   \<and> dv_dt (GradH_estimate_forces gradh_cubic plain_env [particle_at False [0, 0] 0] ! 0)
       = [0, - (981 / 100)]
   \<and> dv_dt (Classic_estimate_forces classic_cubic plain_env [particle_at False [0, 0] 0] ! 0)
       = [0, 0]"
proof -
  have a: "0 < length [particle_at False [0, 0] 0]" by simp
  have b: "\<not> fixed ([particle_at False [0, 0] 0] ! 0)" by (simp add: particle_at_def)
  have s: "dv_dt (GradH_force_sum gradh_cubic plain_env 0
        (fold (GradH_forces_body gradh_cubic plain_env) [0..<0] [particle_at False [0, 0] 0]) ! 0)
       = [0, 0]"
    by (simp add: GradH_force_sum_def GradH_force_pair_def GradH_grad_aba_def
        GradH_grad_abb_def GradH_grad_ab_def Let_def ex_defs op_defs)
  have t: "dv_dt (Classic_force_sum classic_cubic plain_env 0
        (fold (Classic_forces_body classic_cubic plain_env) [0..<0] [particle_at False [0, 0] 0]) ! 0)
       = [0, 0]"
    by (simp add: Classic_force_sum_def Classic_force_pair_def Let_def ex_defs op_defs)
  have c: "1 < length (dv_dt (GradH_force_sum gradh_cubic plain_env 0
        (fold (GradH_forces_body gradh_cubic plain_env) [0..<0] [particle_at False [0, 0] 0]) ! 0))"
    unfolding s by simp
  from GradH_forces_gravity [OF a b c, of classic_cubic] s t a b show ?thesis by simp
qed

end
